theory Spec2Isabelle
  imports Main
begin

section \<open>Strings and numbers as the JavaScript runtime renders them\<close>

text \<open>
  A string is a list of bytes: the UTF-8 encoding of the JavaScript string, which is
  what \<^verbatim>\<open>Buffer.from(s)\<close> yields and what goes over the wire. A JavaScript
  number is modelled by an integer (identifiers, lock versions, HTTP status codes and
  percentages are integers); the decimal rendering below is the one of template
  literals for integers of ordinary size.
\<close>

definition digit :: "nat \<Rightarrow> char" where
  "digit d = ''0123456789'' ! d"

fun showNat :: "nat \<Rightarrow> string" where
  "showNat n = (if n < 10 then [digit n] else showNat (n div 10) @ [digit (n mod 10)])"

declare showNat.simps [simp del]

definition showNumber :: "int \<Rightarrow> string" where
  "showNumber i = (if i < 0 then CHR ''-'' # showNat (nat (- i)) else showNat (nat i))"

definition newline :: string where
  "newline = [CHR 0x0A]"

definition dquote :: string where
  "dquote = [CHR 0x22]"

text \<open>\<^verbatim>\<open>Array.prototype.join\<close> on an array of strings.\<close>

fun join :: "string \<Rightarrow> string list \<Rightarrow> string" where
  "join sep [] = []"
| "join sep [x] = x"
| "join sep (x # y # ys) = x @ sep @ join sep (y # ys)"

text \<open>
  \<^verbatim>\<open>Buffer.prototype.toString('base64')\<close> (and Go's
  \<^verbatim>\<open>base64.StdEncoding.EncodeToString\<close>): the standard alphabet, three bytes to
  four characters, padded with \<^verbatim>\<open>=\<close>.
\<close>

definition b64chars :: string where
  "b64chars = ''ABCDEFGHIJKLMNOPQRSTUVWXYZabcdefghijklmnopqrstuvwxyz0123456789+/''"

definition b64 :: "nat \<Rightarrow> char" where
  "b64 i = b64chars ! i"

fun base64 :: "string \<Rightarrow> string" where
  "base64 [] = []"
| "base64 [a] =
     (let x = (of_char a :: nat)
      in [b64 (x div 4), b64 ((x mod 4) * 16), CHR ''='', CHR ''=''])"
| "base64 [a, b] =
     (let x = (of_char a :: nat); y = (of_char b :: nat)
      in [b64 (x div 4), b64 ((x mod 4) * 16 + y div 16), b64 ((y mod 16) * 4), CHR ''=''])"
| "base64 (a # b # c # rest) =
     (let x = (of_char a :: nat); y = (of_char b :: nat); z = (of_char c :: nat)
      in [b64 (x div 4), b64 ((x mod 4) * 16 + y div 16),
          b64 ((y mod 16) * 4 + z div 64), b64 (z mod 64)] @ base64 rest)"

section \<open>JavaScript values built by the handlers\<close>

text \<open>
  The objects the handlers build (the update payload, the projected work package, the
  file mapping) are JavaScript values; an object is the list of its properties in
  insertion order.
\<close>

datatype jsval =
    Undefined
  | Null
  | Bool bool
  | Num int
  | Str string
  | Arr "jsval list"
  | Obj "(string \<times> jsval) list"

text \<open>What \<^verbatim>\<open>if (v)\<close> and \<^verbatim>\<open>v && ...\<close> test.\<close>

fun truthy :: "jsval \<Rightarrow> bool" where
  "truthy Undefined = False"
| "truthy Null = False"
| "truthy (Bool b) = b"
| "truthy (Num n) = (n \<noteq> 0)"
| "truthy (Str s) = (s \<noteq> [])"
| "truthy (Arr vs) = True"
| "truthy (Obj kvs) = True"

text \<open>\<^verbatim>\<open>string | number\<close>, the type of a resource's \<^verbatim>\<open>id\<close>.\<close>

datatype ident = IdNum int | IdStr string

definition showIdent :: "ident \<Rightarrow> string" where
  "showIdent i = (case i of IdNum n \<Rightarrow> showNumber n | IdStr s \<Rightarrow> s)"

definition identValue :: "ident \<Rightarrow> jsval" where
  "identValue i = (case i of IdNum n \<Rightarrow> Num n | IdStr s \<Rightarrow> Str s)"

text \<open>
  \<^verbatim>\<open>x || d\<close> at the types the source uses it: an optional value that is absent
  (\<^verbatim>\<open>undefined\<close> or \<^verbatim>\<open>null\<close>), the empty string and the number 0 are
  falsy and give way to the default.
\<close>

definition or_str :: "string option \<Rightarrow> string \<Rightarrow> string" where
  "or_str x d = (case x of None \<Rightarrow> d | Some s \<Rightarrow> if s = [] then d else s)"

definition or_num :: "int option \<Rightarrow> int \<Rightarrow> int" where
  "or_num x d = (case x of None \<Rightarrow> d | Some n \<Rightarrow> if n = 0 then d else n)"

definition or_ident :: "ident option \<Rightarrow> int \<Rightarrow> jsval" where
  "or_ident x d =
     (case x of
        None \<Rightarrow> Num d
      | Some (IdNum n) \<Rightarrow> if n = 0 then Num d else Num n
      | Some (IdStr s) \<Rightarrow> if s = [] then Num d else Str s)"

section \<open>The remote system's documents (openproject-api-types.ts)\<close>

text \<open>
  The interfaces of the type file as records; an optional member (\<^verbatim>\<open>?\<close>) is an
  \<open>option\<close>, \<^verbatim>\<open>extends\<close> is record extension. The constant \<^verbatim>\<open>_type\<close> tags
  and the members no handler reads (of \<^verbatim>\<open>Type\<close>, \<^verbatim>\<open>Priority\<close>, \<^verbatim>\<open>User\<close>,
  \<^verbatim>\<open>Project\<close> beyond \<^verbatim>\<open>NamedResource\<close>, and of \<^verbatim>\<open>Attachment\<close>) are left
  out. \<^verbatim>\<open>Links\<close> has the required \<^verbatim>\<open>self\<close> and an index signature: a
  dictionary from the other link names to links, in which a name may be missing.
  A collection carries its \<^verbatim>\<open>_embedded.elements\<close> as \<open>elements\<close>.
\<close>

record Link =
  href :: string
  title :: "string option"
  templated :: "bool option"
  link_method :: "string option"

record Links =
  self :: Link
  others :: "string \<rightharpoonup> Link"

record BaseResource =
  id' :: ident
  links :: Links

record NamedResource = BaseResource +
  name :: string

record Status = NamedResource +
  isDefault :: bool
  isClosed :: bool
  color :: string
  position :: int

record FormattedText =
  format :: string
  raw :: string
  html :: string

record WorkPackageEmbedded =
  emb_status :: "Status option"
  emb_type :: "NamedResource option"
  emb_priority :: "NamedResource option"
  emb_project :: "NamedResource option"
  emb_assignee :: "NamedResource option"

record WorkPackage = BaseResource +
  subject :: string
  description :: "FormattedText option"
  startDate :: "string option"
  dueDate :: "string option"
  estimatedTime :: "string option"
  percentageDone :: "int option"
  createdAt :: string
  updatedAt :: string
  lockVersion :: int
  embedded :: WorkPackageEmbedded

record 'a Collection =
  total' :: int
  count' :: int
  elements :: "'a list"

type_synonym AvailableStatusesResponse = "Status Collection"

record Attachment = BaseResource +
  fileName :: string
  fileSize :: int
  contentType :: string

type_synonym AttachmentCollectionResponse = "Attachment Collection"

record ErrorResponse =
  errorIdentifier :: string
  message :: string

section \<open>The Response Reducer: formatWorkPackage\<close>

definition formatWorkPackage :: "WorkPackage \<Rightarrow> AvailableStatusesResponse \<Rightarrow> jsval" where
  "formatWorkPackage workPackage statuses = Obj
     [(''id'', identValue (id' workPackage)),
      (''subject'', Str (subject workPackage)),
      (''status'', Str (or_str (map_option name (emb_status (embedded workPackage))) ''Unknown status'')),
      (''type'', Str (or_str (map_option name (emb_type (embedded workPackage))) ''Unknown type'')),
      (''priority'', Str (or_str (map_option name (emb_priority (embedded workPackage))) ''Unknown priority'')),
      (''assignee'', Str (or_str (map_option name (emb_assignee (embedded workPackage))) ''Unassigned'')),
      (''project'', Str (or_str (map_option name (emb_project (embedded workPackage))) ''Unknown project'')),
      (''projectId'', or_ident (map_option id' (emb_project (embedded workPackage))) 0),
      (''description'', Str (or_str (map_option raw (description workPackage)) ''No description'')),
      (''createdAt'', Str (createdAt workPackage)),
      (''updatedAt'', Str (updatedAt workPackage)),
      (''startDate'', Str (or_str (startDate workPackage) ''No start date'')),
      (''dueDate'', Str (or_str (dueDate workPackage) ''No due date'')),
      (''estimatedTime'', Str (or_str (estimatedTime workPackage) ''No estimate'')),
      (''percentageDone'', Num (or_num (percentageDone workPackage) 0)),
      (''lockVersion'', Num (lockVersion workPackage)),
      (''statuses'', Arr (map (\<lambda>e. Str (name e)) (elements statuses)))]"

section \<open>The HTTP exchange and the runtime library\<close>

text \<open>
  The request is the \<^verbatim>\<open>options\<close> object handed to \<^verbatim>\<open>fetch\<close> together with
  the URL. An exchange ends in one of three ways: \<^verbatim>\<open>fetch\<close> rejects (no response),
  a response arrives whole, or the response's head arrives and its body stream emits
  \<^verbatim>\<open>error\<close> after the bytes recorded in \<open>responseText\<close>.
\<close>

record request =
  url :: string
  http_method :: string
  headers :: "(string \<times> string) list"
  body :: "string option"

record response =
  status :: nat
  statusText :: string
  responseText :: string

text \<open>\<^verbatim>\<open>response.ok\<close>: the status is in the range 200 to 299.\<close>

definition ok :: "response \<Rightarrow> bool" where
  "ok r = (200 \<le> status r \<and> status r < 300)"

datatype fetch_outcome =
    Rejected string
  | Responded response
  | Interrupted response string

text \<open>A thrown \<^verbatim>\<open>Error\<close>; the handlers read nothing of it but its message.\<close>

datatype exn = Error string

fun err_message :: "exn \<Rightarrow> string" where
  "err_message (Error m) = m"

record config =
  apiBaseUrl :: string
  apiKey :: string

text \<open>
  What the source takes from Node and its libraries, as parameters: what lies outside
  the process behind \<^verbatim>\<open>fetch\<close> (a transition function on a state of its own,
  which stands for the remote system and the disk),
  \<^verbatim>\<open>String.prototype.toLowerCase\<close>, \<^verbatim>\<open>JSON.stringify\<close> with and without the
  indentation argument, \<^verbatim>\<open>JSON.parse\<close> read at the type the source casts its
  result to (\<open>None\<close> when the \<^verbatim>\<open>try\<close> block around it throws),
  \<^verbatim>\<open>response.json()\<close> read at the type argument of the call (\<open>Inl m\<close> when it
  rejects with an error of message \<open>m\<close>), \<^verbatim>\<open>os.tmpdir()\<close> and
  \<^verbatim>\<open>path.join\<close>. The disk may refuse a write: \<open>mkdirSync_error\<close> gives the
  message of the error that \<^verbatim>\<open>fs.mkdirSync\<close> throws for a path in a state of the
  outside, and \<open>writeStream_error\<close> the message of the \<^verbatim>\<open>error\<close> event that the
  stream of \<^verbatim>\<open>fs.createWriteStream\<close> emits when the file cannot be opened or
  written (\<open>None\<close> when the write goes through). The casts of the source are
  unchecked: what a document that does not inhabit its interface would do is outside
  this model.
\<close>

record 'r runtime =
  fetch :: "'r \<Rightarrow> request \<Rightarrow> fetch_outcome \<times> 'r"
  toLowerCase :: "string \<Rightarrow> string"
  JSON_stringify :: "jsval \<Rightarrow> string"
  JSON_stringify_indented :: "jsval \<Rightarrow> string"
  JSON_parse_ErrorResponse :: "string \<Rightarrow> ErrorResponse option"
  json_WorkPackage :: "string \<Rightarrow> string + WorkPackage"
  json_Statuses :: "string \<Rightarrow> string + AvailableStatusesResponse"
  json_Attachments :: "string \<Rightarrow> string + AttachmentCollectionResponse"
  os_tmpdir :: string
  path_join :: "string \<Rightarrow> string \<Rightarrow> string"
  mkdirSync_error :: "'r \<Rightarrow> string \<Rightarrow> string option"
  writeStream_error :: "'r \<Rightarrow> string \<Rightarrow> string option"

text \<open>
  The world a handler runs in: the state of the outside, the exchanges made so far in
  order, and what the process has put on the disk (the directories it has made or found,
  the files it has written).
\<close>

record 'r world =
  outside :: 'r
  log :: "(request \<times> fetch_outcome) list"
  dirs :: "string list"
  files :: "(string \<times> string) list"

definition node_fetch :: "'r runtime \<Rightarrow> request \<Rightarrow> 'r world \<Rightarrow> fetch_outcome \<times> 'r world" where
  "node_fetch rt req w =
     (case fetch rt (outside w) req of
        (out, r') \<Rightarrow> (out, w\<lparr>outside := r', log := log w @ [(req, out)]\<rparr>))"

section \<open>The Authenticated HTTP Client: callOpenProjectAPI\<close>

text \<open>
  The client of the server with the three tools. The older copy of the server
  (\<^verbatim>\<open>src/index.ts\<close>) has the same client, but for the place of \<^verbatim>\<open>/api/v3\<close>,
  which it expects in the configured base address, and has the first two tools only.
\<close>

definition auth_headers :: "config \<Rightarrow> (string \<times> string) list" where
  "auth_headers cfg =
     [(''Authorization'', ''Basic '' @ base64 (''apikey:'' @ apiKey cfg)),
      (''Content-Type'', ''application/json'')]"

definition api_options :: "config \<Rightarrow> 'r runtime \<Rightarrow> string \<Rightarrow> string \<Rightarrow> jsval option \<Rightarrow> request" where
  "api_options cfg rt endpoint meth payload =
     \<lparr>url = apiBaseUrl cfg @ ''/api/v3'' @ endpoint,
      http_method = meth,
      headers = auth_headers cfg,
      body = (case payload of
                None \<Rightarrow> None
              | Some b \<Rightarrow>
                  if truthy b \<and> (meth = ''POST'' \<or> meth = ''PATCH'' \<or> meth = ''PUT'')
                  then Some (JSON_stringify rt b) else None)\<rparr>"

definition api_error_message :: "'r runtime \<Rightarrow> response \<Rightarrow> string" where
  "api_error_message rt r =
     (case JSON_parse_ErrorResponse rt (responseText r) of
        Some errorData \<Rightarrow> or_str (Some (message errorData)) ''Unknown error''
      | None \<Rightarrow> or_str (Some (responseText r)) ''Unknown error'')"

definition callOpenProjectAPI ::
  "config \<Rightarrow> 'r runtime \<Rightarrow> (string \<Rightarrow> string + 'a) \<Rightarrow> string \<Rightarrow> string \<Rightarrow> jsval option
     \<Rightarrow> 'r world \<Rightarrow> (exn + 'a) \<times> 'r world" where
  "callOpenProjectAPI cfg rt decode endpoint meth payload w =
     (case node_fetch rt (api_options cfg rt endpoint meth payload) w of
        (Rejected m, w') \<Rightarrow> (Inl (Error m), w')
      | (Interrupted r m, w') \<Rightarrow> (Inl (Error m), w')
      | (Responded r, w') \<Rightarrow>
          if \<not> ok r
          then (Inl (Error (''OpenProject API error ('' @ showNat (status r) @ ''): ''
                            @ api_error_message rt r)), w')
          else (case decode (responseText r) of
                  Inl m \<Rightarrow> (Inl (Error m), w')
                | Inr responseData \<Rightarrow> (Inr responseData, w')))"

section \<open>The tool handlers\<close>

text \<open>
  A handler's return value: the text of its single content item and the
  \<^verbatim>\<open>isError\<close> flag, which the success returns of the first two tools and of the
  download ledger leave out (\<open>None\<close>).
\<close>

record ToolResult =
  content_text :: string
  isError :: "bool option"

definition work_package_endpoint :: "int \<Rightarrow> string" where
  "work_package_endpoint workPackageId = ''/work_packages/'' @ showNumber workPackageId"

subsection \<open>Tool 1: \<^verbatim>\<open>get_work_package_detail\<close>\<close>

definition get_work_package_detail ::
  "config \<Rightarrow> 'r runtime \<Rightarrow> int \<Rightarrow> 'r world \<Rightarrow> ToolResult \<times> 'r world" where
  "get_work_package_detail cfg rt workPackageId w =
     (case callOpenProjectAPI cfg rt (json_WorkPackage rt)
             (work_package_endpoint workPackageId) ''GET'' None w of
        (Inl err, w1) \<Rightarrow>
          (\<lparr>content_text = ''Error retrieving work package #'' @ showNumber workPackageId @ '': ''
                   @ err_message err,
            isError = Some True\<rparr>, w1)
      | (Inr data, w1) \<Rightarrow>
          (case callOpenProjectAPI cfg rt (json_Statuses rt) ''/statuses'' ''GET'' None w1 of
             (Inl err, w2) \<Rightarrow>
               (\<lparr>content_text = ''Error retrieving work package #'' @ showNumber workPackageId @ '': ''
                        @ err_message err,
                 isError = Some True\<rparr>, w2)
           | (Inr statuses, w2) \<Rightarrow>
               (\<lparr>content_text = ''Work Package #'' @ showNumber workPackageId @ '' Details:'' @ newline
                        @ JSON_stringify_indented rt (formatWorkPackage data statuses),
                 isError = None\<rparr>, w2)))"

subsection \<open>Tool 2: \<^verbatim>\<open>change_work_package_status\<close>\<close>

definition updatePayload :: "WorkPackage \<Rightarrow> Status \<Rightarrow> jsval" where
  "updatePayload workPackage targetStatus =
     Obj [(''lockVersion'', Num (lockVersion workPackage)),
          (''_links'', Obj [(''status'', Obj [(''href'', Str (href (self (links targetStatus))))])])]"

definition status_update_error :: "int \<Rightarrow> exn \<Rightarrow> ToolResult" where
  "status_update_error workPackageId err =
     \<lparr>content_text = ''Error updating work package #'' @ showNumber workPackageId @ '' status: ''
             @ err_message err,
      isError = Some True\<rparr>"

text \<open>
  The template literal of the success text renders the previous status name, and
  \<^verbatim>\<open>undefined\<close> when the fetched work package embeds no status.
\<close>

definition previous_status_name :: "WorkPackage \<Rightarrow> string" where
  "previous_status_name workPackage =
     (case emb_status (embedded workPackage) of None \<Rightarrow> ''undefined'' | Some s \<Rightarrow> name s)"

definition change_work_package_status ::
  "config \<Rightarrow> 'r runtime \<Rightarrow> int \<Rightarrow> string \<Rightarrow> 'r world \<Rightarrow> ToolResult \<times> 'r world" where
  "change_work_package_status cfg rt workPackageId status_arg w =
     (case callOpenProjectAPI cfg rt (json_WorkPackage rt)
             (work_package_endpoint workPackageId) ''GET'' None w of
        (Inl err, w1) \<Rightarrow> (status_update_error workPackageId err, w1)
      | (Inr workPackage, w1) \<Rightarrow>
          (case callOpenProjectAPI cfg rt (json_Statuses rt) ''/statuses'' ''GET'' None w1 of
             (Inl err, w2) \<Rightarrow> (status_update_error workPackageId err, w2)
           | (Inr statuses, w2) \<Rightarrow>
               (case find (\<lambda>s. toLowerCase rt (name s) = toLowerCase rt status_arg)
                       (elements statuses) of
                  None \<Rightarrow>
                    (\<lparr>content_text = ''Error: Status '' @ dquote @ status_arg @ dquote
                             @ '' is not available for work package #''
                             @ showNumber workPackageId @ ''. Available statuses are: ''
                             @ join '', '' (map name (elements statuses)),
                      isError = Some True\<rparr>, w2)
                | Some targetStatus \<Rightarrow>
                    (case callOpenProjectAPI cfg rt (json_WorkPackage rt)
                            (work_package_endpoint workPackageId) ''PATCH''
                            (Some (updatePayload workPackage targetStatus)) w2 of
                       (Inl err, w3) \<Rightarrow> (status_update_error workPackageId err, w3)
                     | (Inr updatedWorkPackage, w3) \<Rightarrow>
                         (\<lparr>content_text = ''Successfully updated work package #''
                                  @ showNumber workPackageId @ '' status from '' @ dquote
                                  @ previous_status_name workPackage @ dquote @ '' to ''
                                  @ dquote @ name targetStatus @ dquote @ ''.'' @ newline
                                  @ newline @ ''Updated work package:'' @ newline
                                  @ JSON_stringify_indented rt
                                      (formatWorkPackage updatedWorkPackage statuses),
                           isError = None\<rparr>, w3)))))"

subsection \<open>Tool 3: \<^verbatim>\<open>download_work_package_attachments\<close>\<close>

text \<open>
  How a step of this tool ends: it completes, it throws into the enclosing
  \<^verbatim>\<open>catch\<close>, or the process dies. The last is what a refused write does: the
  write stream of \<^verbatim>\<open>downloadFile\<close> has no listener for its \<^verbatim>\<open>error\<close> event,
  so the event is an uncaught exception that ends the server, and no result is returned.
  The body of a response that \<^verbatim>\<open>fetch\<close> resolves with is a stream, so the
  optional chaining of the source never skips the pipe; when the stream of the body
  emits \<^verbatim>\<open>error\<close> the promise is rejected, with the bytes that arrived in the file.
\<close>

datatype 'a completion =
    Completed 'a
  | Threw exn
  | Died string

definition downloadFile ::
  "config \<Rightarrow> 'r runtime \<Rightarrow> string \<Rightarrow> string \<Rightarrow> 'r world \<Rightarrow> unit completion \<times> 'r world" where
  "downloadFile cfg rt endpoint filePath w =
     (case node_fetch rt
             \<lparr>url = apiBaseUrl cfg @ endpoint, http_method = ''GET'',
              headers = auth_headers cfg, body = None\<rparr> w of
        (Rejected m, w') \<Rightarrow> (Threw (Error m), w')
      | (Responded r, w') \<Rightarrow>
          if \<not> ok r
          then (Threw (Error (''Failed to download file: '' @ showNat (status r) @ '' ''
                              @ statusText r)), w')
          else (case writeStream_error rt (outside w') filePath of
                  Some e \<Rightarrow> (Died e, w')
                | None \<Rightarrow> (Completed (), w'\<lparr>files := (filePath, responseText r) # files w'\<rparr>))
      | (Interrupted r m, w') \<Rightarrow>
          if \<not> ok r
          then (Threw (Error (''Failed to download file: '' @ showNat (status r) @ '' ''
                              @ statusText r)), w')
          else (case writeStream_error rt (outside w') filePath of
                  Some e \<Rightarrow> (Died e, w')
                | None \<Rightarrow>
                    (Threw (Error m), w'\<lparr>files := (filePath, responseText r) # files w'\<rparr>)))"

text \<open>The three marks of the ledger lines, as the bytes of the source file.\<close>

definition warning_mark :: string where
  "warning_mark = [CHR 0xE2, CHR 0x9A, CHR 0xA0, CHR 0xEF, CHR 0xB8, CHR 0x8F]"

definition check_mark :: string where
  "check_mark = [CHR 0xE2, CHR 0x9C, CHR 0x85]"

definition cross_mark :: string where
  "cross_mark = [CHR 0xE2, CHR 0x9D, CHR 0x8C]"

definition skipped_line :: "Attachment \<Rightarrow> string" where
  "skipped_line attachment =
     warning_mark @ '' Skipped '' @ fileName attachment @ '' (ID: ''
       @ showIdent (id' attachment) @ ''): Download URL not available''"

definition downloaded_line :: "Attachment \<Rightarrow> string" where
  "downloaded_line attachment =
     check_mark @ '' Downloaded '' @ fileName attachment @ '' (ID: ''
       @ showIdent (id' attachment) @ '')''"

definition failed_line :: "Attachment \<Rightarrow> string \<Rightarrow> string" where
  "failed_line attachment m =
     cross_mark @ '' Failed to download '' @ fileName attachment @ '' (ID: ''
       @ showIdent (id' attachment) @ ''): '' @ m"

record DownloadedFile =
  df_id :: ident
  df_fileName :: string
  df_filePath :: string
  df_fileSize :: int
  df_contentType :: string

text \<open>
  Reading \<^verbatim>\<open>.href\<close> of a link that the \<^verbatim>\<open>_links\<close> dictionary does not hold
  throws this \<^verbatim>\<open>TypeError\<close>.
\<close>

definition href_of_undefined :: exn where
  "href_of_undefined = Error ''Cannot read properties of undefined (reading 'href')''"

text \<open>
  The \<^verbatim>\<open>for ... of\<close> loop over the attachments, with the two arrays it pushes to.
  The read of the download link stands outside the inner \<^verbatim>\<open>try\<close>, so its
  \<^verbatim>\<open>TypeError\<close> leaves the loop; the inner \<^verbatim>\<open>catch\<close> takes what
  \<^verbatim>\<open>downloadFile\<close> throws.
\<close>

fun download_loop ::
  "config \<Rightarrow> 'r runtime \<Rightarrow> string \<Rightarrow> Attachment list \<Rightarrow> string list \<times> DownloadedFile list
     \<Rightarrow> 'r world \<Rightarrow> (string list \<times> DownloadedFile list) completion \<times> 'r world" where
  "download_loop cfg rt tempDir [] acc w = (Completed acc, w)"
| "download_loop cfg rt tempDir (attachment # rest) (downloadResults, downloadedFiles) w =
     (case others (links attachment) ''staticDownloadLocation'' of
        None \<Rightarrow> (Threw href_of_undefined, w)
      | Some l \<Rightarrow>
          if href l = []
          then download_loop cfg rt tempDir rest
                 (downloadResults @ [skipped_line attachment], downloadedFiles) w
          else
            (case downloadFile cfg rt (href l)
                    (path_join rt tempDir (showIdent (id' attachment) @ ''.'' @ fileName attachment))
                    w of
               (Completed u, w') \<Rightarrow>
                 download_loop cfg rt tempDir rest
                   (downloadResults @ [downloaded_line attachment],
                    downloadedFiles @
                      [\<lparr>df_id = id' attachment, df_fileName = fileName attachment,
                        df_filePath = path_join rt tempDir
                          (showIdent (id' attachment) @ ''.'' @ fileName attachment),
                        df_fileSize = fileSize attachment,
                        df_contentType = contentType attachment\<rparr>]) w'
             | (Threw err, w') \<Rightarrow>
                 download_loop cfg rt tempDir rest
                   (downloadResults @ [failed_line attachment (err_message err)],
                    downloadedFiles) w'
             | (Died e, w') \<Rightarrow> (Died e, w')))"

definition fileMapping :: "DownloadedFile list \<Rightarrow> jsval" where
  "fileMapping downloadedFiles =
     Arr (map (\<lambda>file. Obj [(''id'', identValue (df_id file)),
                            (''filePath'', Str (df_filePath file)),
                            (''contentType'', Str (df_contentType file))]) downloadedFiles)"

definition attachments_error :: "int \<Rightarrow> exn \<Rightarrow> ToolResult" where
  "attachments_error workPackageId err =
     \<lparr>content_text = ''Error processing attachments for work package #'' @ showNumber workPackageId
             @ '': '' @ err_message err,
      isError = Some True\<rparr>"

definition ledger_text :: "'r runtime \<Rightarrow> int \<Rightarrow> string \<Rightarrow> string list \<Rightarrow> DownloadedFile list \<Rightarrow> string" where
  "ledger_text rt workPackageId tempDir downloadResults downloadedFiles =
     ''Download results for work package #'' @ showNumber workPackageId @ '':'' @ newline
       @ join newline downloadResults @ newline @ newline
       @ ''Files saved to: '' @ tempDir @ newline @ newline
       @ ''File mapping:'' @ newline
       @ JSON_stringify_indented rt (fileMapping downloadedFiles)"

definition scratch_dir :: "'r runtime \<Rightarrow> int \<Rightarrow> string" where
  "scratch_dir rt workPackageId =
     path_join rt (os_tmpdir rt) (''openproject/'' @ showNumber workPackageId)"

text \<open>
  \<^verbatim>\<open>if (!fs.existsSync(tempDir)) fs.mkdirSync(tempDir, { recursive: true })\<close>:
  the error that \<^verbatim>\<open>mkdirSync\<close> throws, if any, and the world afterwards.
\<close>

definition ensure_dir :: "'r runtime \<Rightarrow> string \<Rightarrow> 'r world \<Rightarrow> string option \<times> 'r world" where
  "ensure_dir rt d w =
     (if d \<in> set (dirs w) then (None, w)
      else (case mkdirSync_error rt (outside w) d of
              Some e \<Rightarrow> (Some e, w)
            | None \<Rightarrow> (None, w\<lparr>dirs := d # dirs w\<rparr>)))"

text \<open>What the host gets from a call: the returned result, or nothing when the process dies.\<close>

datatype tool_outcome =
    Returns ToolResult
  | ProcessDies string

definition download_work_package_attachments ::
  "config \<Rightarrow> 'r runtime \<Rightarrow> int \<Rightarrow> 'r world \<Rightarrow> tool_outcome \<times> 'r world" where
  "download_work_package_attachments cfg rt workPackageId w =
     (case callOpenProjectAPI cfg rt (json_Attachments rt)
             (work_package_endpoint workPackageId @ ''/attachments'') ''GET'' None w of
        (Inl err, w1) \<Rightarrow> (Returns (attachments_error workPackageId err), w1)
      | (Inr attachments, w1) \<Rightarrow>
          if total' attachments = 0
          then (Returns \<lparr>content_text = ''No attachments found for work package #''
                                @ showNumber workPackageId @ ''.'',
                         isError = Some False\<rparr>, w1)
          else
            (case ensure_dir rt (scratch_dir rt workPackageId) w1 of
               (Some e, w2) \<Rightarrow> (Returns (attachments_error workPackageId (Error e)), w2)
             | (None, w2) \<Rightarrow>
                 (case download_loop cfg rt (scratch_dir rt workPackageId)
                         (elements attachments) ([], []) w2 of
                    (Threw err, w3) \<Rightarrow> (Returns (attachments_error workPackageId err), w3)
                  | (Died e, w3) \<Rightarrow> (ProcessDies e, w3)
                  | (Completed (downloadResults, downloadedFiles), w3) \<Rightarrow>
                      (Returns \<lparr>content_text = ledger_text rt workPackageId
                                       (scratch_dir rt workPackageId)
                                       downloadResults downloadedFiles,
                                isError = None\<rparr>, w3))))"

subsection \<open>The registered tools\<close>

datatype tool_call =
    GetWorkPackageDetail int
  | ChangeWorkPackageStatus int string
  | DownloadWorkPackageAttachments int

fun server_tool :: "config \<Rightarrow> 'r runtime \<Rightarrow> tool_call \<Rightarrow> 'r world \<Rightarrow> tool_outcome \<times> 'r world" where
  "server_tool cfg rt (GetWorkPackageDetail workPackageId) w =
     (case get_work_package_detail cfg rt workPackageId w of (r, w') \<Rightarrow> (Returns r, w'))"
| "server_tool cfg rt (ChangeWorkPackageStatus workPackageId status_arg) w =
     (case change_work_package_status cfg rt workPackageId status_arg w of
        (r, w') \<Rightarrow> (Returns r, w'))"
| "server_tool cfg rt (DownloadWorkPackageAttachments workPackageId) w =
     download_work_package_attachments cfg rt workPackageId w"

subsection \<open>The Go tool's request (src-go/main.go)\<close>

definition basicAuth :: "string \<Rightarrow> string" where
  "basicAuth apiKey' = ''Basic '' @ base64 (''apikey:'' @ apiKey')"

definition go_request :: "string \<Rightarrow> int \<Rightarrow> request" where
  "go_request apiKey' workPackageID =
     \<lparr>url = ''https://project.mywelly.vn/api/v3/work_packages/'' @ showNumber workPackageID,
      http_method = ''GET'',
      headers = [(''Accept'', ''application/hal+json''), (''Authorization'', basicAuth apiKey')],
      body = None\<rparr>"

section \<open>Reading the log and the ledger\<close>


definition transfer_failed :: "request \<times> fetch_outcome \<Rightarrow> bool" where
  "transfer_failed x =
     (case snd x of Rejected m \<Rightarrow> True | Responded r \<Rightarrow> \<not> ok r | Interrupted r m \<Rightarrow> True)"


text \<open>Whether a text occurs in another, as a run of consecutive characters.\<close>

fun occurs_in :: "string \<Rightarrow> string \<Rightarrow> bool" where
  "occurs_in p [] = (p = [])"
| "occurs_in p (c # cs) = (take (length p) (c # cs) = p \<or> occurs_in p cs)"

text \<open>
  A world \<open>w'\<close> continues \<open>w\<close> with authorised exchanges when its log is the log of
  \<open>w\<close> followed by exchanges whose requests carry the headers of \<open>auth_headers\<close>.
\<close>

definition authorized :: "config \<Rightarrow> request \<times> fetch_outcome \<Rightarrow> bool" where
  "authorized cfg x = (headers (fst x) = auth_headers cfg)"

definition continues :: "config \<Rightarrow> 'r world \<Rightarrow> 'r world \<Rightarrow> bool" where
  "continues cfg w w' = (\<exists>new. log w' = log w @ new \<and> list_all (authorized cfg) new)"

text \<open>
  The message of the error that \<^verbatim>\<open>downloadFile\<close> throws on a failed transfer, and
  the line that the loop writes for an attachment whose link is present: the skip for an
  empty href, otherwise the line of the download or of its failure.
\<close>

definition failure_message :: "fetch_outcome \<Rightarrow> string" where
  "failure_message out =
     (case out of
        Rejected m \<Rightarrow> m
      | Responded r \<Rightarrow>
          ''Failed to download file: '' @ showNat (status r) @ '' '' @ statusText r
      | Interrupted r m \<Rightarrow>
          if \<not> ok r
          then ''Failed to download file: '' @ showNat (status r) @ '' '' @ statusText r
          else m)"



section \<open>A test double of the remote system\<close>

text \<open>
  A scripted remote: its state is the list of outcomes still to give, one per exchange;
  when the script is used up the connection is refused. The runtime of the double
  lowers ASCII letters, prints values compactly, decodes the few bodies below and has a
  disk that takes every write.
\<close>

definition scripted :: "fetch_outcome list \<Rightarrow> request \<Rightarrow> fetch_outcome \<times> fetch_outcome list" where
  "scripted script req =
     (case script of
        [] \<Rightarrow> (Rejected ''connect ECONNREFUSED'', [])
      | out # rest \<Rightarrow> (out, rest))"

definition lower_char :: "char \<Rightarrow> char" where
  "lower_char c =
     (case map_of (zip ''ABCDEFGHIJKLMNOPQRSTUVWXYZ'' ''abcdefghijklmnopqrstuvwxyz'') c of
        None \<Rightarrow> c
      | Some l \<Rightarrow> l)"

fun print_value :: "jsval \<Rightarrow> string" where
  "print_value Undefined = ''undefined''"
| "print_value Null = ''null''"
| "print_value (Bool b) = (if b then ''true'' else ''false'')"
| "print_value (Num n) = showNumber n"
| "print_value (Str s) = dquote @ s @ dquote"
| "print_value (Arr vs) = ''['' @ join '','' (map print_value vs) @ '']''"
| "print_value (Obj kvs) =
     ''{'' @ join '','' (map (\<lambda>kv. dquote @ fst kv @ dquote @ '':'' @ print_value (snd kv)) kvs) @ ''}''"

definition link_to :: "string \<Rightarrow> Link" where
  "link_to h = \<lparr>href = h, title = None, templated = None, link_method = None\<rparr>"

definition only_self :: "string \<Rightarrow> Links" where
  "only_self h = \<lparr>self = link_to h, others = Map.empty\<rparr>"

definition status_doc :: "int \<Rightarrow> string \<Rightarrow> bool \<Rightarrow> Status" where
  "status_doc n nm closed =
     \<lparr>id' = IdNum n, links = only_self (''/api/v3/statuses/'' @ showNumber n), name = nm,
      isDefault = (n = 1), isClosed = closed, color = ''#1A67A3'', position = n\<rparr>"

definition catalog :: AvailableStatusesResponse where
  "catalog =
     \<lparr>total' = 3, count' = 3,
      elements = [status_doc 1 ''New'' False, status_doc 7 ''In Progress'' False,
                  status_doc 12 ''Closed'' True]\<rparr>"

definition work_package_doc :: "int \<Rightarrow> Status \<Rightarrow> WorkPackage" where
  "work_package_doc lv st =
     \<lparr>id' = IdNum 42, links = only_self ''/api/v3/work_packages/42'',
      subject = ''Fix the login form'', description = None, startDate = None,
      dueDate = Some ''2025-03-01'', estimatedTime = None, percentageDone = None,
      createdAt = ''2025-01-10T08:00:00Z'', updatedAt = ''2025-01-11T09:30:00Z'',
      lockVersion = lv,
      embedded = \<lparr>emb_status = Some st, emb_type = None, emb_priority = None,
                  emb_project = None, emb_assignee = None\<rparr>\<rparr>"

definition attachment_doc :: "int \<Rightarrow> string \<Rightarrow> (string \<rightharpoonup> Link) \<Rightarrow> Attachment" where
  "attachment_doc n fn ls =
     \<lparr>id' = IdNum n, links = \<lparr>self = link_to (''/api/v3/attachments/'' @ showNumber n), others = ls\<rparr>,
      fileName = fn, fileSize = 1024, contentType = ''image/png''\<rparr>"

definition static_link :: "string \<Rightarrow> (string \<rightharpoonup> Link)" where
  "static_link h = [''staticDownloadLocation'' \<mapsto> link_to h]"

definition three_attachments :: AttachmentCollectionResponse where
  "three_attachments =
     \<lparr>total' = 3, count' = 3,
      elements = [attachment_doc 1 ''a.png'' (static_link ''/api/v3/attachments/1/content''),
                  attachment_doc 2 ''b.png'' (static_link []),
                  attachment_doc 3 ''c.png'' (static_link ''/api/v3/attachments/3/content'')]\<rparr>"

definition unlinked_attachments :: AttachmentCollectionResponse where
  "unlinked_attachments =
     \<lparr>total' = 2, count' = 2,
      elements = [attachment_doc 1 ''a.png'' (static_link ''/api/v3/attachments/1/content''),
                  attachment_doc 2 ''b.png'' Map.empty]\<rparr>"

definition no_attachments :: AttachmentCollectionResponse where
  "no_attachments = \<lparr>total' = 0, count' = 0, elements = []\<rparr>"

definition test_runtime :: "fetch_outcome list runtime" where
  "test_runtime =
     \<lparr>fetch = scripted,
      toLowerCase = map lower_char,
      JSON_stringify = print_value,
      JSON_stringify_indented = print_value,
      JSON_parse_ErrorResponse =
        (\<lambda>s. if s = ''{error: conflict}''
             then Some \<lparr>errorIdentifier = ''urn:openproject-org:api:v3:errors:UpdateConflict'',
                        message = ''Could not update the resource because of conflicting modifications.''\<rparr>
             else None),
      json_WorkPackage =
        (\<lambda>s. if s = ''{work package 42, lock 5, New}''
             then Inr (work_package_doc 5 (status_doc 1 ''New'' False))
             else if s = ''{work package 42, lock 6, Closed}''
             then Inr (work_package_doc 6 (status_doc 12 ''Closed'' True))
             else Inl ''Unexpected token < in JSON at position 0''),
      json_Statuses =
        (\<lambda>s. if s = ''{statuses}'' then Inr catalog
             else Inl ''Unexpected token < in JSON at position 0''),
      json_Attachments =
        (\<lambda>s. if s = ''{three attachments}'' then Inr three_attachments
             else if s = ''{unlinked attachments}'' then Inr unlinked_attachments
             else if s = ''{no attachments}'' then Inr no_attachments
             else Inl ''Unexpected token < in JSON at position 0''),
      os_tmpdir = ''/tmp'',
      path_join = (\<lambda>a b. a @ ''/'' @ b),
      mkdirSync_error = (\<lambda>e p. None),
      writeStream_error = (\<lambda>e p. None)\<rparr>"

text \<open>The same runtime on a disk that cannot open the file of an attachment.\<close>

definition refusing_disk :: "fetch_outcome list runtime" where
  "refusing_disk =
     test_runtime\<lparr>writeStream_error :=
       (\<lambda>e p. Some (''ENOENT: no such file or directory, open '' @ p))\<rparr>"

definition test_config :: config where
  "test_config = \<lparr>apiBaseUrl = ''https://op.example'', apiKey = ''s3cret''\<rparr>"

definition http_ok :: "string \<Rightarrow> fetch_outcome" where
  "http_ok b = Responded \<lparr>status = 200, statusText = ''OK'', responseText = b\<rparr>"

definition http_fail :: "nat \<Rightarrow> string \<Rightarrow> string \<Rightarrow> fetch_outcome" where
  "http_fail c t b = Responded \<lparr>status = c, statusText = t, responseText = b\<rparr>"

definition fresh :: "fetch_outcome list \<Rightarrow> fetch_outcome list world" where
  "fresh script = \<lparr>outside = script, log = [], dirs = [], files = []\<rparr>"

text \<open>The scripts of the runs below, one outcome for each exchange the tool makes.\<close>

definition status_script :: "fetch_outcome list" where
  "status_script =
     [http_ok ''{work package 42, lock 5, New}'', http_ok ''{statuses}'',
      http_ok ''{work package 42, lock 6, Closed}'']"

definition conflict_script :: "fetch_outcome list" where
  "conflict_script =
     [http_ok ''{work package 42, lock 5, New}'', http_ok ''{statuses}'',
      http_fail 409 ''Conflict'' ''{error: conflict}'']"

definition download_script :: "fetch_outcome list" where
  "download_script =
     [http_ok ''{three attachments}'', http_ok ''PNG bytes of a'',
      http_fail 404 ''Not Found'' []]"

definition unlinked_script :: "fetch_outcome list" where
  "unlinked_script = [http_ok ''{unlinked attachments}'', http_ok ''PNG bytes of a'']"

section \<open>The renderings on known values\<close>

lemma base64_rfc4648:
  "base64 [] = []"
  "base64 ''f'' = ''Zg==''"
  "base64 ''fo'' = ''Zm8=''"
  "base64 ''foo'' = ''Zm9v''"
  "base64 ''foob'' = ''Zm9vYg==''"
  "base64 ''fooba'' = ''Zm9vYmE=''"
  "base64 ''foobar'' = ''Zm9vYmFy''"
  by (simp_all add: b64_def b64chars_def)

lemma showNumber_examples:
  "showNumber 0 = ''0''"
  "showNumber 42 = ''42''"
  "showNumber 1207 = ''1207''"
  "showNumber (- 7) = ''-7''"
  by (simp_all add: showNumber_def showNat.simps digit_def)

lemma join_examples:
  "join '', '' [] = []"
  "join '', '' [''New''] = ''New''"
  "join '', '' [''New'', ''In Progress'', ''Closed''] = ''New, In Progress, Closed''"
  by simp_all

section \<open>What every exchange does to the world\<close>

lemma node_fetch_world:
  assumes "node_fetch rt req w = (out, w')"
  shows "log w' = log w @ [(req, out)]" and "dirs w' = dirs w" and "files w' = files w"
    and "fetch rt (outside w) req = (out, outside w')"
  using assms by (auto simp: node_fetch_def split: prod.splits)

lemma callOpenProjectAPI_world:
  assumes "callOpenProjectAPI cfg rt decode endpoint meth payload w = (res, w')"
  shows "\<exists>out. log w' = log w @ [(api_options cfg rt endpoint meth payload, out)]"
    and "dirs w' = dirs w" and "files w' = files w"
  using assms
  by (auto simp: callOpenProjectAPI_def split: prod.splits fetch_outcome.splits if_splits sum.splits
           dest: node_fetch_world)


lemma downloadFile_world:
  assumes "downloadFile cfg rt endpoint filePath w = (res, w')"
  shows "\<exists>req out. log w' = log w @ [(req, out)] \<and> headers req = auth_headers cfg
            \<and> (\<forall>err. res = Threw err
                   \<longrightarrow> transfer_failed (req, out) \<and> err_message err = failure_message out)
            \<and> (res = Completed () \<longrightarrow> \<not> transfer_failed (req, out))
            \<and> ((\<forall>e p. writeStream_error rt e p = None) \<longrightarrow> (\<forall>e. res \<noteq> Died e))"
    and "dirs w' = dirs w"
proof -
  let ?req = "\<lparr>url = apiBaseUrl cfg @ endpoint, http_method = ''GET'',
                headers = auth_headers cfg, body = None\<rparr>"
  obtain out w1 where nf: "node_fetch rt ?req w = (out, w1)"
    by (cases "node_fetch rt ?req w")
  note nw = node_fetch_world[OF nf]
  have "log w' = log w @ [(?req, out)]
          \<and> (\<forall>err. res = Threw err
                 \<longrightarrow> transfer_failed (?req, out) \<and> err_message err = failure_message out)
          \<and> (res = Completed () \<longrightarrow> \<not> transfer_failed (?req, out))
          \<and> ((\<forall>e p. writeStream_error rt e p = None) \<longrightarrow> (\<forall>e. res \<noteq> Died e))
          \<and> dirs w' = dirs w"
    using assms nf nw(1,2)
    by (cases out)
       (auto simp: downloadFile_def transfer_failed_def failure_message_def
             split: if_splits option.splits)
  then show "\<exists>req out. log w' = log w @ [(req, out)] \<and> headers req = auth_headers cfg
            \<and> (\<forall>err. res = Threw err
                   \<longrightarrow> transfer_failed (req, out) \<and> err_message err = failure_message out)
            \<and> (res = Completed () \<longrightarrow> \<not> transfer_failed (req, out))
            \<and> ((\<forall>e p. writeStream_error rt e p = None) \<longrightarrow> (\<forall>e. res \<noteq> Died e))"
    and "dirs w' = dirs w"
    by (auto intro: exI[of _ ?req])
qed

lemma continues_refl: "continues cfg w w"
  by (simp add: continues_def)

lemma continues_trans: "continues cfg w w1 \<Longrightarrow> continues cfg w1 w2 \<Longrightarrow> continues cfg w w2"
  by (auto simp: continues_def)


lemma ensure_dir_world:
  assumes "ensure_dir rt d w = (r, w')"
  shows "log w' = log w" and "outside w' = outside w" and "files w' = files w"
    and "r = Some e \<Longrightarrow> mkdirSync_error rt (outside w) d = Some e"
  using assms by (auto simp: ensure_dir_def split: if_splits option.splits)

lemma continues_ensure_dir:
  "ensure_dir rt d w = (r, w') \<Longrightarrow> continues cfg w w'"
  by (simp add: continues_def ensure_dir_world(1))

lemma callOpenProjectAPI_continues:
  assumes "callOpenProjectAPI cfg rt decode endpoint meth payload w = (res, w')"
  shows "continues cfg w w'"
proof -
  from callOpenProjectAPI_world(1)[OF assms] obtain out
    where "log w' = log w @ [(api_options cfg rt endpoint meth payload, out)]" ..
  moreover have "authorized cfg (api_options cfg rt endpoint meth payload, out)"
    by (simp add: authorized_def api_options_def)
  ultimately show ?thesis by (auto simp: continues_def)
qed

lemma downloadFile_continues:
  assumes "downloadFile cfg rt endpoint filePath w = (res, w')"
  shows "continues cfg w w'"
  using downloadFile_world(1)[OF assms] by (auto simp: continues_def authorized_def)


lemma download_loop_continues:
  "download_loop cfg rt d as acc w = (res, w') \<Longrightarrow> continues cfg w w'"
proof (induction as arbitrary: acc w)
  case Nil
  then show ?case by (simp add: continues_refl)
next
  case (Cons a as)
  obtain rs fs where acc: "acc = (rs, fs)" by (cases acc)
  show ?case
  proof (cases "others (links a) ''staticDownloadLocation''")
    case None
    with Cons.prems acc show ?thesis by (simp add: continues_refl)
  next
    case (Some l)
    show ?thesis
    proof (cases "href l = []")
      case True
      with Cons.prems acc Some show ?thesis by (auto dest: Cons.IH)
    next
      case False
      obtain r w1 where dl: "downloadFile cfg rt (href l)
          (path_join rt d (showIdent (id' a) @ ''.'' @ fileName a)) w = (r, w1)"
        by (cases "downloadFile cfg rt (href l) (path_join rt d (showIdent (id' a) @ ''.'' @ fileName a)) w")
      show ?thesis
      proof (cases r)
        case (Died e)
        with Cons.prems acc Some False dl have "w' = w1" by simp
        with downloadFile_continues[OF dl] show ?thesis by simp
      next
        case (Completed u)
        with Cons.prems acc Some False dl
        obtain acc' where "download_loop cfg rt d as acc' w1 = (res, w')" by auto
        from Cons.IH[OF this] downloadFile_continues[OF dl] show ?thesis
          by (blast intro: continues_trans)
      next
        case (Threw err)
        with Cons.prems acc Some False dl
        obtain acc' where "download_loop cfg rt d as acc' w1 = (res, w')" by auto
        from Cons.IH[OF this] downloadFile_continues[OF dl] show ?thesis
          by (blast intro: continues_trans)
      qed
    qed
  qed
qed

lemma get_work_package_detail_continues:
  "continues cfg w (snd (get_work_package_detail cfg rt workPackageId w))"
proof -
  obtain r1 w1 where c1: "callOpenProjectAPI cfg rt (json_WorkPackage rt)
      (work_package_endpoint workPackageId) ''GET'' None w = (r1, w1)"
    by (cases "callOpenProjectAPI cfg rt (json_WorkPackage rt) (work_package_endpoint workPackageId) ''GET'' None w")
  obtain r2 w2 where c2: "callOpenProjectAPI cfg rt (json_Statuses rt) ''/statuses'' ''GET'' None w1 = (r2, w2)"
    by (cases "callOpenProjectAPI cfg rt (json_Statuses rt) ''/statuses'' ''GET'' None w1")
  note k1 = callOpenProjectAPI_continues[OF c1]
  note k2 = continues_trans[OF k1 callOpenProjectAPI_continues[OF c2]]
  show ?thesis
    using c1 c2 k1 k2 by (cases r1; cases r2) (simp_all add: get_work_package_detail_def)
qed

lemma change_work_package_status_continues:
  "continues cfg w (snd (change_work_package_status cfg rt workPackageId status_arg w))"
proof -
  obtain r1 w1 where c1: "callOpenProjectAPI cfg rt (json_WorkPackage rt)
      (work_package_endpoint workPackageId) ''GET'' None w = (r1, w1)"
    by (cases "callOpenProjectAPI cfg rt (json_WorkPackage rt) (work_package_endpoint workPackageId) ''GET'' None w")
  obtain r2 w2 where c2: "callOpenProjectAPI cfg rt (json_Statuses rt) ''/statuses'' ''GET'' None w1 = (r2, w2)"
    by (cases "callOpenProjectAPI cfg rt (json_Statuses rt) ''/statuses'' ''GET'' None w1")
  note k1 = callOpenProjectAPI_continues[OF c1]
  note k2 = continues_trans[OF k1 callOpenProjectAPI_continues[OF c2]]
  have k3: "continues cfg w w3"
    if "callOpenProjectAPI cfg rt (json_WorkPackage rt) e ''PATCH'' p w2 = (r, w3)" for e p r w3
    using continues_trans[OF k2 callOpenProjectAPI_continues[OF that]] .
  show ?thesis
    using c1 c2 k1 k2
    by (cases r1; cases r2)
       (auto simp: change_work_package_status_def split: option.splits prod.splits sum.splits
             intro: k3)
qed


lemma download_work_package_attachments_continues:
  "continues cfg w (snd (download_work_package_attachments cfg rt workPackageId w))"
proof -
  obtain r1 w1 where c1: "callOpenProjectAPI cfg rt (json_Attachments rt)
      (work_package_endpoint workPackageId @ ''/attachments'') ''GET'' None w = (r1, w1)"
    by (cases "callOpenProjectAPI cfg rt (json_Attachments rt) (work_package_endpoint workPackageId @ ''/attachments'') ''GET'' None w")
  note k1 = callOpenProjectAPI_continues[OF c1]
  have k2: "continues cfg w w2" if "ensure_dir rt d w1 = (m, w2)" for d m w2
    using continues_trans[OF k1 continues_ensure_dir[OF that]] .
  have k3: "continues cfg w w3"
    if "ensure_dir rt d w1 = (m, w2)" and "download_loop cfg rt d' as acc w2 = (r, w3)"
    for d d' m w2 as acc r w3
    using continues_trans[OF k2[OF that(1)] download_loop_continues[OF that(2)]] .
  show ?thesis
    using c1 k1
    by (cases r1)
       (auto simp: download_work_package_attachments_def
             split: prod.splits option.splits completion.splits
             intro: k2 k3)
qed

section \<open>The attachment loop\<close>


lemma download_loop_absent_link:
  "a \<in> set as \<Longrightarrow> others (links a) ''staticDownloadLocation'' = None
     \<Longrightarrow> fst (download_loop cfg rt d as acc w) = Threw href_of_undefined
         \<or> (\<exists>e. fst (download_loop cfg rt d as acc w) = Died e)"
proof (induction as arbitrary: acc w)
  case Nil
  then show ?case by simp
next
  case (Cons b bs)
  obtain rs fs where acc: "acc = (rs, fs)" by (cases acc)
  show ?case
  proof (cases "others (links b) ''staticDownloadLocation''")
    case None
    with acc show ?thesis by simp
  next
    case (Some l)
    with Cons.prems have "a \<in> set bs" by auto
    note ih = Cons.IH[OF this Cons.prems(2)]
    show ?thesis
      using acc Some ih by (auto split: prod.splits completion.splits)
  qed
qed

lemma download_loop_survives:
  assumes "\<forall>e p. writeStream_error rt e p = None"
  shows "fst (download_loop cfg rt d as acc w) \<noteq> Died e"
proof (induction as arbitrary: acc w)
  case Nil
  show ?case by simp
next
  case (Cons b bs)
  obtain rs fs where acc: "acc = (rs, fs)" by (cases acc)
  show ?case
  proof (cases "others (links b) ''staticDownloadLocation''")
    case None
    with acc show ?thesis by simp
  next
    case (Some l)
    show ?thesis
    proof (cases "href l = []")
      case True
      with acc Some Cons.IH show ?thesis by simp
    next
      case False
      obtain r w1 where dl: "downloadFile cfg rt (href l)
          (path_join rt d (showIdent (id' b) @ ''.'' @ fileName b)) w = (r, w1)"
        by (cases "downloadFile cfg rt (href l) (path_join rt d (showIdent (id' b) @ ''.'' @ fileName b)) w")
      from downloadFile_world(1)[OF dl] assms have "\<forall>e. r \<noteq> Died e" by blast
      with acc Some False dl Cons.IH show ?thesis
        by (cases r) simp_all
    qed
  qed
qed






lemma find_first_match:
  assumes "s \<in> set xs" and "P s"
  shows "\<exists>t pre post. find P xs = Some t \<and> xs = pre @ t # post
           \<and> (\<forall>x \<in> set pre. \<not> P x) \<and> P t"
proof -
  from assms have "\<exists>x \<in> set xs. P x" by blast
  from split_list_first_prop[OF this]
  obtain pre t post where xs: "xs = pre @ t # post" and t: "P t"
    and pre: "\<forall>x \<in> set pre. \<not> P x"
    by blast
  from pre t have "find P (pre @ t # post) = Some t"
    by (induction pre) auto
  with xs t pre show ?thesis by blast
qed

section \<open>Evaluating the test double\<close>

lemmas model_defs =
  callOpenProjectAPI_def node_fetch_def api_options_def auth_headers_def ok_def
  api_error_message_def or_str_def showNumber_def showNat.simps digit_def
  work_package_endpoint_def

lemmas model_defs2 =
  change_work_package_status_def download_work_package_attachments_def
  get_work_package_detail_def downloadFile_def updatePayload_def status_update_error_def
  attachments_error_def previous_status_name_def scratch_dir_def ensure_dir_def
  href_of_undefined_def

lemmas double_defs =
  test_runtime_def test_config_def scripted_def http_ok_def http_fail_def fresh_def
  status_script_def conflict_script_def download_script_def unlinked_script_def
  catalog_def status_doc_def work_package_doc_def attachment_doc_def static_link_def
  three_attachments_def unlinked_attachments_def no_attachments_def link_to_def
  only_self_def lower_char_def refusing_disk_def

lemmas line_defs =
  skipped_line_def downloaded_line_def failed_line_def showIdent_def ledger_text_def
  fileMapping_def identValue_def

section \<open>The update request of the change-status tool\<close>

text \<open>
  C1. When the status name is resolved, the one request sent after the two reads is the
  PATCH of the work package, and its body is the serialisation of an object with exactly
  two properties: the lockVersion of the work package fetched by the first read of the
  same call, unchanged, and \<^verbatim>\<open>_links\<close> holding the single entry \<^verbatim>\<open>status\<close>
  whose only property is the href of the matched status's self link.
\<close>

theorem update_payload_is_lockVersion_and_status_link:
  assumes "callOpenProjectAPI cfg rt (json_WorkPackage rt)
             (work_package_endpoint workPackageId) ''GET'' None w = (Inr workPackage, w1)"
    and "callOpenProjectAPI cfg rt (json_Statuses rt) ''/statuses'' ''GET'' None w1
           = (Inr statuses, w2)"
    and "find (\<lambda>s. toLowerCase rt (name s) = toLowerCase rt status_arg) (elements statuses)
           = Some targetStatus"
  shows "\<exists>out. log (snd (change_work_package_status cfg rt workPackageId status_arg w))
           = log w2 @
             [(\<lparr>url = apiBaseUrl cfg @ ''/api/v3/work_packages/'' @ showNumber workPackageId,
                http_method = ''PATCH'',
                headers = auth_headers cfg,
                body = Some (JSON_stringify rt
                        (Obj [(''lockVersion'', Num (lockVersion workPackage)),
                              (''_links'',
                               Obj [(''status'',
                                     Obj [(''href'', Str (href (self (links targetStatus))))])])]))\<rparr>,
               out)]"
proof -
  let ?call = "callOpenProjectAPI cfg rt (json_WorkPackage rt)
                 (work_package_endpoint workPackageId) ''PATCH''
                 (Some (updatePayload workPackage targetStatus)) w2"
  obtain r3 w3 where c3: "?call = (r3, w3)" by (cases ?call)
  from callOpenProjectAPI_world(1)[OF c3] obtain out where
    l: "log w3 = log w2 @ [(api_options cfg rt (work_package_endpoint workPackageId) ''PATCH''
                             (Some (updatePayload workPackage targetStatus)), out)]" ..
  have "snd (change_work_package_status cfg rt workPackageId status_arg w) = w3"
    using assms c3 by (cases r3) (simp_all add: change_work_package_status_def)
  with l show ?thesis
    by (simp add: api_options_def updatePayload_def work_package_endpoint_def)
qed

text \<open>
  The run of the double: work package 42 with lockVersion 5, request \<^verbatim>\<open>closed\<close>.
  The third request is the PATCH, with lockVersion 5 and the self link of status 12.
\<close>

theorem update_payload_witness:
  "map (\<lambda>x. (http_method (fst x), body (fst x)))
     (log (snd (change_work_package_status test_config test_runtime 42 ''closed''
                  (fresh status_script))))
   = [(''GET'', None), (''GET'', None),
      (''PATCH'', Some (print_value
         (Obj [(''lockVersion'', Num 5),
               (''_links'', Obj [(''status'', Obj [(''href'', Str ''/api/v3/statuses/12'')])])])))]"
proof -
  define w1 where "w1 = snd (callOpenProjectAPI test_config test_runtime
    (json_WorkPackage test_runtime) (work_package_endpoint 42) ''GET'' None (fresh status_script))"
  define w2 where "w2 = snd (callOpenProjectAPI test_config test_runtime
    (json_Statuses test_runtime) ''/statuses'' ''GET'' None w1)"
  have h1: "callOpenProjectAPI test_config test_runtime (json_WorkPackage test_runtime)
      (work_package_endpoint 42) ''GET'' None (fresh status_script)
      = (Inr (work_package_doc 5 (status_doc 1 ''New'' False)), w1)"
    by (simp add: w1_def model_defs double_defs)
  have h2: "callOpenProjectAPI test_config test_runtime (json_Statuses test_runtime)
      ''/statuses'' ''GET'' None w1 = (Inr catalog, w2)"
    by (simp add: w2_def w1_def model_defs double_defs)
  have h3: "find (\<lambda>s. toLowerCase test_runtime (name s) = toLowerCase test_runtime ''closed'')
      (elements catalog) = Some (status_doc 12 ''Closed'' True)"
    by (simp add: double_defs)
  have l2: "map (\<lambda>x. (http_method (fst x), body (fst x))) (log w2) = [(''GET'', None), (''GET'', None)]"
    by (simp add: w2_def w1_def model_defs double_defs)
  have js: "JSON_stringify test_runtime = print_value"
    by (simp add: test_runtime_def)
  have lv: "lockVersion (work_package_doc 5 (status_doc 1 ''New'' False)) = 5"
    by (simp add: work_package_doc_def)
  have hr: "href (self (links (status_doc 12 ''Closed'' True))) = ''/api/v3/statuses/12''"
    by (simp add: status_doc_def only_self_def link_to_def showNumber_def showNat.simps digit_def)
  from update_payload_is_lockVersion_and_status_link[OF h1 h2 h3] obtain out where
    "log (snd (change_work_package_status test_config test_runtime 42 ''closed''
                 (fresh status_script)))
     = log w2 @
       [(\<lparr>url = apiBaseUrl test_config @ ''/api/v3/work_packages/'' @ showNumber 42,
          http_method = ''PATCH'', headers = auth_headers test_config,
          body = Some (print_value
                  (Obj [(''lockVersion'', Num 5),
                        (''_links'',
                         Obj [(''status'', Obj [(''href'', Str ''/api/v3/statuses/12'')])])]))\<rparr>,
         out)]"
    unfolding js lv hr ..
  then have "map (\<lambda>x. (http_method (fst x), body (fst x)))
       (log (snd (change_work_package_status test_config test_runtime 42 ''closed''
                    (fresh status_script))))
     = map (\<lambda>x. (http_method (fst x), body (fst x))) (log w2) @
       [(''PATCH'', Some (print_value
          (Obj [(''lockVersion'', Num 5),
                (''_links'', Obj [(''status'', Obj [(''href'', Str ''/api/v3/statuses/12'')])])])))]"
    by simp
  then show ?thesis
    unfolding l2 by simp
qed

section \<open>Resolving a status name\<close>

text \<open>
  C2, as stated, promises success for every name that matches a catalog entry. The update
  itself can still be refused by the remote system: in this run the name matches
  \<^verbatim>\<open>Closed\<close> and the remote answers the PATCH with 409, so the tool returns an error.
\<close>

theorem rejected_update_counterexample:
  "status_doc 12 ''Closed'' True \<in> set (elements catalog)
   \<and> toLowerCase test_runtime (name (status_doc 12 ''Closed'' True))
       = toLowerCase test_runtime ''closed''
   \<and> fst (change_work_package_status test_config test_runtime 42 ''closed''
            (fresh conflict_script))
       = \<lparr>content_text = ''Error updating work package #42 status: OpenProject API error (409): Could not update the resource because of conflicting modifications.'',
           isError = Some True\<rparr>"
  by (simp add: model_defs model_defs2 double_defs)


text \<open>
  C2, amended. For every requested name that equals the name of some catalog entry when
  both are lowered, whenever the remote system accepts the update that the tool sends,
  the tool succeeds and the status named in its success text is the name of the first
  entry of the catalog that matches, in the catalog's own casing, whatever the casing of
  the request: the entry that \<^verbatim>\<open>find\<close> returns, before which no entry of the catalog
  matches, and which is the only match when the lowered names of the catalog are
  distinct. The projected record that follows in the text is the one of the work package
  that the remote returned for the update.
\<close>


theorem matching_status_reports_canonical_name:
  assumes "callOpenProjectAPI cfg rt (json_WorkPackage rt)
             (work_package_endpoint workPackageId) ''GET'' None w = (Inr workPackage, w1)"
    and "callOpenProjectAPI cfg rt (json_Statuses rt) ''/statuses'' ''GET'' None w1
           = (Inr statuses, w2)"
    and "s \<in> set (elements statuses)"
    and "toLowerCase rt (name s) = toLowerCase rt status_arg"
    and "\<And>t. find (\<lambda>x. toLowerCase rt (name x) = toLowerCase rt status_arg)
                 (elements statuses) = Some t
            \<Longrightarrow> fst (callOpenProjectAPI cfg rt (json_WorkPackage rt)
                       (work_package_endpoint workPackageId) ''PATCH''
                       (Some (updatePayload workPackage t)) w2) = Inr updatedWorkPackage"
  shows "\<exists>targetStatus pre post.
           find (\<lambda>x. toLowerCase rt (name x) = toLowerCase rt status_arg)
             (elements statuses) = Some targetStatus
         \<and> elements statuses = pre @ targetStatus # post
         \<and> (\<forall>x \<in> set pre. toLowerCase rt (name x) \<noteq> toLowerCase rt status_arg)
         \<and> toLowerCase rt (name targetStatus) = toLowerCase rt status_arg
         \<and> fst (change_work_package_status cfg rt workPackageId status_arg w)
             = \<lparr>content_text = ''Successfully updated work package #''
                    @ showNumber workPackageId @ '' status from '' @ dquote
                    @ previous_status_name workPackage @ dquote @ '' to '' @ dquote
                    @ name targetStatus @ dquote @ ''.'' @ newline @ newline
                    @ ''Updated work package:'' @ newline
                    @ JSON_stringify_indented rt (formatWorkPackage updatedWorkPackage statuses),
                 isError = None\<rparr>
         \<and> (distinct (map (\<lambda>x. toLowerCase rt (name x)) (elements statuses))
              \<longrightarrow> targetStatus = s)"
proof -
  let ?P = "\<lambda>x. toLowerCase rt (name x) = toLowerCase rt status_arg"
  from find_first_match[of s "elements statuses" ?P, OF assms(3,4)]
  obtain t pre post where f: "find ?P (elements statuses) = Some t"
    and sp: "elements statuses = pre @ t # post"
    and pre: "\<forall>x \<in> set pre. \<not> ?P x" and m: "?P t"
    by (elim exE conjE)
  from sp have t: "t \<in> set (elements statuses)" by simp
  let ?call = "callOpenProjectAPI cfg rt (json_WorkPackage rt)
                 (work_package_endpoint workPackageId) ''PATCH''
                 (Some (updatePayload workPackage t)) w2"
  from assms(5)[OF f] obtain w3 where c3: "?call = (Inr updatedWorkPackage, w3)"
    by (cases ?call) auto
  have res: "fst (change_work_package_status cfg rt workPackageId status_arg w)
             = \<lparr>content_text = ''Successfully updated work package #''
                    @ showNumber workPackageId @ '' status from '' @ dquote
                    @ previous_status_name workPackage @ dquote @ '' to '' @ dquote
                    @ name t @ dquote @ ''.'' @ newline @ newline
                    @ ''Updated work package:'' @ newline
                    @ JSON_stringify_indented rt (formatWorkPackage updatedWorkPackage statuses),
                 isError = None\<rparr>"
    using assms(1,2) f c3 by (simp add: change_work_package_status_def)
  have uniq: "t = s" if "distinct (map (\<lambda>x. toLowerCase rt (name x)) (elements statuses))"
  proof -
    from that have "inj_on (\<lambda>x. toLowerCase rt (name x)) (set (elements statuses))"
      by (simp add: distinct_map)
    from inj_onD[OF this, of t s] t assms(3,4) m show ?thesis
      by simp
  qed
  show ?thesis
  proof (rule exI[of _ t], rule exI[of _ pre], rule exI[of _ post], intro conjI)
    show "find ?P (elements statuses) = Some t" by (fact f)
    show "elements statuses = pre @ t # post" by (fact sp)
    show "\<forall>x \<in> set pre. toLowerCase rt (name x) \<noteq> toLowerCase rt status_arg" by (fact pre)
    show "toLowerCase rt (name t) = toLowerCase rt status_arg" by (fact m)
    show "fst (change_work_package_status cfg rt workPackageId status_arg w)
             = \<lparr>content_text = ''Successfully updated work package #''
                    @ showNumber workPackageId @ '' status from '' @ dquote
                    @ previous_status_name workPackage @ dquote @ '' to '' @ dquote
                    @ name t @ dquote @ ''.'' @ newline @ newline
                    @ ''Updated work package:'' @ newline
                    @ JSON_stringify_indented rt (formatWorkPackage updatedWorkPackage statuses),
                 isError = None\<rparr>" by (fact res)
    show "distinct (map (\<lambda>x. toLowerCase rt (name x)) (elements statuses)) \<longrightarrow> t = s"
      by (rule impI) (rule uniq)
  qed
qed

text \<open>The run of the double: the request \<^verbatim>\<open>cLoSeD\<close> is reported as \<^verbatim>\<open>Closed\<close>.\<close>

theorem matching_status_witness:
  "fst (change_work_package_status test_config test_runtime 42 ''cLoSeD'' (fresh status_script))
     = \<lparr>content_text = ''Successfully updated work package #42 status from '' @ dquote
            @ ''New'' @ dquote @ '' to '' @ dquote @ ''Closed'' @ dquote @ ''.'' @ newline
            @ newline @ ''Updated work package:'' @ newline
            @ print_value (formatWorkPackage (work_package_doc 6 (status_doc 12 ''Closed'' True))
                             catalog),
         isError = None\<rparr>"
proof -
  define w1 where "w1 = snd (callOpenProjectAPI test_config test_runtime
    (json_WorkPackage test_runtime) (work_package_endpoint 42) ''GET'' None (fresh status_script))"
  define w2 where "w2 = snd (callOpenProjectAPI test_config test_runtime
    (json_Statuses test_runtime) ''/statuses'' ''GET'' None w1)"
  have h1: "callOpenProjectAPI test_config test_runtime (json_WorkPackage test_runtime)
      (work_package_endpoint 42) ''GET'' None (fresh status_script)
      = (Inr (work_package_doc 5 (status_doc 1 ''New'' False)), w1)"
    by (simp add: w1_def model_defs double_defs)
  have h2: "callOpenProjectAPI test_config test_runtime (json_Statuses test_runtime)
      ''/statuses'' ''GET'' None w1 = (Inr catalog, w2)"
    by (simp add: w2_def w1_def model_defs double_defs)
  have h3: "status_doc 12 ''Closed'' True \<in> set (elements catalog)"
    by (simp add: catalog_def)
  have h4: "toLowerCase test_runtime (name (status_doc 12 ''Closed'' True))
      = toLowerCase test_runtime ''cLoSeD''"
    by (simp add: double_defs)
  have h5: "fst (callOpenProjectAPI test_config test_runtime (json_WorkPackage test_runtime)
      (work_package_endpoint 42) ''PATCH''
      (Some (updatePayload (work_package_doc 5 (status_doc 1 ''New'' False)) t)) w2)
      = Inr (work_package_doc 6 (status_doc 12 ''Closed'' True))"
    if "find (\<lambda>x. toLowerCase test_runtime (name x) = toLowerCase test_runtime ''cLoSeD'')
          (elements catalog) = Some t" for t
    by (simp add: w2_def w1_def model_defs double_defs)
  have d: "distinct (map (\<lambda>x. toLowerCase test_runtime (name x)) (elements catalog))"
    by (simp add: double_defs)
  have p: "previous_status_name (work_package_doc 5 (status_doc 1 ''New'' False)) = ''New''"
    by (simp add: previous_status_name_def work_package_doc_def status_doc_def)
  have n: "name (status_doc 12 ''Closed'' True) = ''Closed''"
    by (simp add: status_doc_def)
  have j: "JSON_stringify_indented test_runtime = print_value"
    by (simp add: test_runtime_def)
  have i: "showNumber 42 = ''42''"
    by (simp add: showNumber_def showNat.simps digit_def)
  from matching_status_reports_canonical_name[OF h1 h2 h3 h4 h5] d
  have "fst (change_work_package_status test_config test_runtime 42 ''cLoSeD'' (fresh status_script))
     = \<lparr>content_text = ''Successfully updated work package #''
            @ showNumber 42 @ '' status from '' @ dquote
            @ previous_status_name (work_package_doc 5 (status_doc 1 ''New'' False)) @ dquote
            @ '' to '' @ dquote @ name (status_doc 12 ''Closed'' True) @ dquote @ ''.''
            @ newline @ newline @ ''Updated work package:'' @ newline
            @ JSON_stringify_indented test_runtime
                (formatWorkPackage (work_package_doc 6 (status_doc 12 ''Closed'' True)) catalog),
         isError = None\<rparr>"
    by auto
  then show ?thesis
    unfolding p n j i by simp
qed

text \<open>
  C3. When no entry of the fetched catalog has the name of the request, compared after
  lowering both, the tool returns an error result (a value, not an exception) whose text
  quotes the requested name and ends with the names of all catalog entries, in catalog
  order, joined by a comma and a space. The world it leaves is the one after the two
  reads: both are GET requests without a body, and no update is sent.
\<close>

theorem unknown_status_lists_the_catalog:
  assumes "callOpenProjectAPI cfg rt (json_WorkPackage rt)
             (work_package_endpoint workPackageId) ''GET'' None w = (Inr workPackage, w1)"
    and "callOpenProjectAPI cfg rt (json_Statuses rt) ''/statuses'' ''GET'' None w1
           = (Inr statuses, w2)"
    and "\<forall>s \<in> set (elements statuses). toLowerCase rt (name s) \<noteq> toLowerCase rt status_arg"
  shows "change_work_package_status cfg rt workPackageId status_arg w
           = (\<lparr>content_text = ''Error: Status '' @ dquote @ status_arg @ dquote
                  @ '' is not available for work package #'' @ showNumber workPackageId
                  @ ''. Available statuses are: '' @ join '', '' (map name (elements statuses)),
                isError = Some True\<rparr>, w2)
         \<and> (\<exists>o1 o2. log w2 = log w @
                [(\<lparr>url = apiBaseUrl cfg @ ''/api/v3/work_packages/'' @ showNumber workPackageId,
                   http_method = ''GET'', headers = auth_headers cfg, body = None\<rparr>, o1),
                 (\<lparr>url = apiBaseUrl cfg @ ''/api/v3/statuses'',
                   http_method = ''GET'', headers = auth_headers cfg, body = None\<rparr>, o2)])"
proof -
  have "find (\<lambda>s. toLowerCase rt (name s) = toLowerCase rt status_arg) (elements statuses) = None"
    using assms(3) by (simp add: find_None_iff)
  then have "change_work_package_status cfg rt workPackageId status_arg w
           = (\<lparr>content_text = ''Error: Status '' @ dquote @ status_arg @ dquote
                  @ '' is not available for work package #'' @ showNumber workPackageId
                  @ ''. Available statuses are: '' @ join '', '' (map name (elements statuses)),
                isError = Some True\<rparr>, w2)"
    using assms(1,2) by (simp add: change_work_package_status_def)
  moreover
  from callOpenProjectAPI_world(1)[OF assms(1)] callOpenProjectAPI_world(1)[OF assms(2)]
  have "\<exists>o1 o2. log w2 = log w @
                [(\<lparr>url = apiBaseUrl cfg @ ''/api/v3/work_packages/'' @ showNumber workPackageId,
                   http_method = ''GET'', headers = auth_headers cfg, body = None\<rparr>, o1),
                 (\<lparr>url = apiBaseUrl cfg @ ''/api/v3/statuses'',
                   http_method = ''GET'', headers = auth_headers cfg, body = None\<rparr>, o2)]"
    by (auto simp: api_options_def work_package_endpoint_def)
  ultimately show ?thesis by simp
qed

text \<open>The run of the double: \<^verbatim>\<open>cancelled\<close> is answered with the three names.\<close>

theorem unknown_status_witness:
  "fst (change_work_package_status test_config test_runtime 42 ''cancelled'' (fresh status_script))
     = \<lparr>content_text = ''Error: Status '' @ dquote @ ''cancelled'' @ dquote
            @ '' is not available for work package #42. Available statuses are: New, In Progress, Closed'',
         isError = Some True\<rparr>"
proof -
  define w1 where "w1 = snd (callOpenProjectAPI test_config test_runtime
    (json_WorkPackage test_runtime) (work_package_endpoint 42) ''GET'' None (fresh status_script))"
  define w2 where "w2 = snd (callOpenProjectAPI test_config test_runtime
    (json_Statuses test_runtime) ''/statuses'' ''GET'' None w1)"
  have h1: "callOpenProjectAPI test_config test_runtime (json_WorkPackage test_runtime)
      (work_package_endpoint 42) ''GET'' None (fresh status_script)
      = (Inr (work_package_doc 5 (status_doc 1 ''New'' False)), w1)"
    by (simp add: w1_def model_defs double_defs)
  have h2: "callOpenProjectAPI test_config test_runtime (json_Statuses test_runtime)
      ''/statuses'' ''GET'' None w1 = (Inr catalog, w2)"
    by (simp add: w2_def w1_def model_defs double_defs)
  have h3: "\<forall>s \<in> set (elements catalog).
      toLowerCase test_runtime (name s) \<noteq> toLowerCase test_runtime ''cancelled''"
    by (simp add: double_defs)
  have i: "showNumber 42 = ''42''"
    by (simp add: showNumber_def showNat.simps digit_def)
  have j: "join '', '' (map name (elements catalog)) = ''New, In Progress, Closed''"
    by (simp add: catalog_def status_doc_def)
  from unknown_status_lists_the_catalog[OF h1 h2 h3]
  show ?thesis
    unfolding i j by simp
qed

section \<open>Downloading attachments\<close>


text \<open>
  C4 (the code at the failing input). When some attachment of the fetched collection
  has no \<^verbatim>\<open>staticDownloadLocation\<close> entry among its links, the tool does not record a
  skip: reading the href throws outside the inner \<^verbatim>\<open>try\<close>. Whatever the other
  attachments are and whatever the disk does, every result that the call returns carries
  the error flag, so no ledger is returned; and on a disk that accepts the writes the
  result is the error with the message of the \<^verbatim>\<open>TypeError\<close>. The skip is recorded
  only for a link that is present with an empty href.
\<close>


theorem absent_download_link_fails_the_whole_call:
  assumes "callOpenProjectAPI cfg rt (json_Attachments rt)
             (work_package_endpoint workPackageId @ ''/attachments'') ''GET'' None w
           = (Inr attachments, w1)"
    and "total' attachments \<noteq> 0"
    and "a \<in> set (elements attachments)"
    and "others (links a) ''staticDownloadLocation'' = None"
  shows "(\<forall>r. fst (download_work_package_attachments cfg rt workPackageId w) = Returns r
             \<longrightarrow> isError r = Some True)
       \<and> ((\<forall>e p. mkdirSync_error rt e p = None) \<and> (\<forall>e p. writeStream_error rt e p = None)
            \<longrightarrow> fst (download_work_package_attachments cfg rt workPackageId w)
                  = Returns \<lparr>content_text = ''Error processing attachments for work package #''
                                @ showNumber workPackageId
                                @ '': Cannot read properties of undefined (reading 'href')'',
                             isError = Some True\<rparr>)"
proof -
  let ?d = "scratch_dir rt workPackageId"
  let ?call = "download_work_package_attachments cfg rt workPackageId w"
  let ?typeError = "\<lparr>content_text = ''Error processing attachments for work package #''
                        @ showNumber workPackageId
                        @ '': Cannot read properties of undefined (reading 'href')'',
                      isError = Some True\<rparr>"
  obtain m w2 where ed: "ensure_dir rt ?d w1 = (m, w2)"
    by (cases "ensure_dir rt ?d w1")
  let ?loop = "download_loop cfg rt ?d (elements attachments) ([], []) w2"
  obtain res w3 where lp: "?loop = (res, w3)" by (cases ?loop)
  from download_loop_absent_link[OF assms(3,4), of cfg rt ?d "([], [])" w2] lp
  have res: "res = Threw href_of_undefined \<or> (\<exists>e. res = Died e)" by simp
  have out: "fst ?call = (case m of
                Some e \<Rightarrow> Returns (attachments_error workPackageId (Error e))
              | None \<Rightarrow> (case res of
                           Threw err \<Rightarrow> Returns (attachments_error workPackageId err)
                         | Died e \<Rightarrow> ProcessDies e
                         | Completed x \<Rightarrow> Returns \<lparr>content_text = ledger_text rt workPackageId ?d
                                                       (fst x) (snd x), isError = None\<rparr>))"
    using assms(1,2) ed lp
    by (simp add: download_work_package_attachments_def
          split: option.splits completion.splits prod.splits)
  have flagged: "\<forall>r. fst ?call = Returns r \<longrightarrow> isError r = Some True"
    using res unfolding out
    by (auto simp: attachments_error_def split: option.splits)
  have exact: "fst ?call = Returns ?typeError"
    if mk: "\<forall>e p. mkdirSync_error rt e p = None"
      and wr: "\<forall>e p. writeStream_error rt e p = None"
  proof -
    from ensure_dir_world(4)[OF ed] mk have m: "m = None"
      by (cases m) auto
    from download_loop_survives[OF wr, of cfg ?d "elements attachments" "([], [])" w2] lp
    have "\<forall>e. res \<noteq> Died e" by simp
    with res have "res = Threw href_of_undefined" by blast
    with m show ?thesis
      unfolding out by (simp add: attachments_error_def href_of_undefined_def)
  qed
  from flagged exact show ?thesis by blast
qed

text \<open>
  The run of the double: two attachments, the second without the link. The first is
  downloaded, then the call fails and its ledger is lost.
\<close>


theorem absent_download_link_witness:
  "fst (download_work_package_attachments test_config test_runtime 42 (fresh unlinked_script))
     = Returns \<lparr>content_text = ''Error processing attachments for work package #42: Cannot read properties of undefined (reading 'href')'',
                isError = Some True\<rparr>"
proof -
  define w1 where "w1 = snd (callOpenProjectAPI test_config test_runtime
    (json_Attachments test_runtime) (work_package_endpoint 42 @ ''/attachments'') ''GET'' None
    (fresh unlinked_script))"
  have h1: "callOpenProjectAPI test_config test_runtime (json_Attachments test_runtime)
      (work_package_endpoint 42 @ ''/attachments'') ''GET'' None
      (fresh unlinked_script) = (Inr unlinked_attachments, w1)"
    by (simp add: w1_def model_defs double_defs)
  have h2: "total' unlinked_attachments \<noteq> 0"
    by (simp add: unlinked_attachments_def)
  have h3: "attachment_doc 2 ''b.png'' Map.empty \<in> set (elements unlinked_attachments)"
    by (simp add: unlinked_attachments_def)
  have h4: "others (links (attachment_doc 2 ''b.png'' Map.empty)) ''staticDownloadLocation'' = None"
    by (simp add: attachment_doc_def)
  have disk: "(\<forall>e p. mkdirSync_error test_runtime e p = None)
            \<and> (\<forall>e p. writeStream_error test_runtime e p = None)"
    by (simp add: test_runtime_def)
  have i: "showNumber 42 = ''42''"
    by (simp add: showNumber_def showNat.simps digit_def)
  from absent_download_link_fails_the_whole_call[OF h1 h2 h3 h4] disk
  have "fst (download_work_package_attachments test_config test_runtime 42 (fresh unlinked_script))
     = Returns \<lparr>content_text = ''Error processing attachments for work package #''
                   @ showNumber 42
                   @ '': Cannot read properties of undefined (reading 'href')'',
                isError = Some True\<rparr>"
    by blast
  then show ?thesis
    unfolding i by simp
qed






text \<open>
  A write that the disk refuses is outside the amended statement. The write stream has
  no listener for its \<^verbatim>\<open>error\<close> event, so when the transfer is answered with a
  success status and the file cannot be opened or written, the event ends the process:
  the call returns nothing, neither a ledger nor an error result. In the run of the
  three attachments on a disk that cannot open the first file, the process dies at the
  first attachment.
\<close>

lemma refused_write_ends_the_process:
  assumes "fetch rt (outside w)
             \<lparr>url = apiBaseUrl cfg @ endpoint, http_method = ''GET'',
              headers = auth_headers cfg, body = None\<rparr> = (out, s)"
    and "out = Responded r \<or> out = Interrupted r m"
    and "ok r"
    and "writeStream_error rt s filePath = Some e"
  shows "fst (downloadFile cfg rt endpoint filePath w) = Died e"
  using assms by (auto simp: downloadFile_def node_fetch_def)

lemma refused_write_run:
  "fst (download_work_package_attachments test_config refusing_disk 42 (fresh download_script))
     = ProcessDies ''ENOENT: no such file or directory, open /tmp/openproject/42/1.a.png''"
  by (simp add: model_defs model_defs2 double_defs line_defs)

text \<open>
  C6. When the fetched collection reports a total of zero attachments, the tool returns
  the text that no attachments were found, with the error flag set to false, and the
  world it leaves is the one after the read of the collection: no directory is created,
  no file is written and no download is requested.
\<close>


theorem zero_attachments_leave_no_scratch:
  assumes "callOpenProjectAPI cfg rt (json_Attachments rt)
             (work_package_endpoint workPackageId @ ''/attachments'') ''GET'' None w
           = (Inr attachments, w1)"
    and "total' attachments = 0"
  shows "download_work_package_attachments cfg rt workPackageId w
           = (Returns \<lparr>content_text = ''No attachments found for work package #''
                           @ showNumber workPackageId @ ''.'',
                        isError = Some False\<rparr>, w1)
         \<and> dirs w1 = dirs w \<and> files w1 = files w"
  using assms callOpenProjectAPI_world(2,3)[OF assms(1)]
  by (simp add: download_work_package_attachments_def)

text \<open>The run of the double: an empty collection, an empty file system afterwards.\<close>

theorem zero_attachments_witness:
  "fst (download_work_package_attachments test_config test_runtime 42
          (fresh [http_ok ''{no attachments}'']))
     = Returns \<lparr>content_text = ''No attachments found for work package #42.'',
                isError = Some False\<rparr>
   \<and> dirs (snd (download_work_package_attachments test_config test_runtime 42
                  (fresh [http_ok ''{no attachments}'']))) = []
   \<and> files (snd (download_work_package_attachments test_config test_runtime 42
                   (fresh [http_ok ''{no attachments}'']))) = []"
proof -
  define w1 where "w1 = snd (callOpenProjectAPI test_config test_runtime
    (json_Attachments test_runtime) (work_package_endpoint 42 @ ''/attachments'') ''GET'' None
    (fresh [http_ok ''{no attachments}'']))"
  have h1: "callOpenProjectAPI test_config test_runtime (json_Attachments test_runtime)
      (work_package_endpoint 42 @ ''/attachments'') ''GET'' None
      (fresh [http_ok ''{no attachments}'']) = (Inr no_attachments, w1)"
    by (simp add: w1_def model_defs double_defs)
  have h2: "total' no_attachments = 0"
    by (simp add: no_attachments_def)
  have i: "showNumber 42 = ''42''"
    by (simp add: showNumber_def showNat.simps digit_def)
  from zero_attachments_leave_no_scratch[OF h1 h2]
  show ?thesis
    unfolding i by (simp add: fresh_def)
qed

section \<open>The client's failures and credentials\<close>


text \<open>
  C7, as stated, gives every failure on a non-success status a message with the status
  code and the resolved message. The client resolves the message from the body, which it
  has to read first: in this run the head of a 502 response arrives and the body stream
  breaks, so \<^verbatim>\<open>response.text()\<close> rejects and the client throws that error as it is.
  Its message holds neither the status code nor the text of the body.
\<close>

theorem unread_error_body_counterexample:
  "\<not> ok \<lparr>status = 502, statusText = ''Bad Gateway'', responseText = ''<html>Bad''\<rparr>
   \<and> fst (callOpenProjectAPI test_config test_runtime (json_WorkPackage test_runtime)
            ''/work_packages/42'' ''GET'' None
            (fresh [Interrupted \<lparr>status = 502, statusText = ''Bad Gateway'',
                                 responseText = ''<html>Bad''\<rparr>
                      ''Invalid response body while trying to fetch https://op.example/api/v3/work_packages/42: Premature close'']))
       = Inl (Error ''Invalid response body while trying to fetch https://op.example/api/v3/work_packages/42: Premature close'')
   \<and> \<not> occurs_in (showNat 502)
         ''Invalid response body while trying to fetch https://op.example/api/v3/work_packages/42: Premature close''
   \<and> \<not> occurs_in ''OpenProject API error''
         ''Invalid response body while trying to fetch https://op.example/api/v3/work_packages/42: Premature close''"
  by (simp add: model_defs double_defs)

text \<open>
  C7, amended. For every response whose status is outside 200 to 299, the client throws,
  and never returns a value. When the body of the response is read whole, the message of
  the error embeds the decimal status code and a message that is never empty: when the
  body parses as an error document, the document's message, or the fallback
  \<^verbatim>\<open>Unknown error\<close> when that message is empty; when the body does not parse, the raw
  body text, or the same fallback when the body is empty. When reading the body fails,
  the error thrown is the one of the read, with its own message.
\<close>


theorem api_error_for_non_success_status:
  assumes "fetch rt (outside w) (api_options cfg rt endpoint meth payload) = (out, s)"
    and "out = Responded r \<or> out = Interrupted r e"
    and "\<not> ok r"
  shows "isl (fst (callOpenProjectAPI cfg rt decode endpoint meth payload w))
       \<and> (out = Responded r \<longrightarrow>
            (\<exists>m. fst (callOpenProjectAPI cfg rt decode endpoint meth payload w)
                    = Inl (Error (''OpenProject API error ('' @ showNat (status r) @ ''): '' @ m))
                \<and> m \<noteq> []
                \<and> m = (case JSON_parse_ErrorResponse rt (responseText r) of
                         Some errorData \<Rightarrow>
                           if message errorData = [] then ''Unknown error''
                           else message errorData
                       | None \<Rightarrow>
                           if responseText r = [] then ''Unknown error''
                           else responseText r)))
       \<and> (out = Interrupted r e \<longrightarrow>
            fst (callOpenProjectAPI cfg rt decode endpoint meth payload w) = Inl (Error e))"
  using assms
  by (auto simp: callOpenProjectAPI_def node_fetch_def api_error_message_def or_str_def
           split: option.splits)


text \<open>
  Four exchanges of the double: an error document (409), a body that is not JSON (502),
  an empty body (404), and a 502 whose body stream breaks.
\<close>


theorem api_error_witness:
  "fst (callOpenProjectAPI test_config test_runtime (json_WorkPackage test_runtime)
          ''/work_packages/42'' ''GET'' None
          (fresh [http_fail 409 ''Conflict'' ''{error: conflict}'']))
     = Inl (Error ''OpenProject API error (409): Could not update the resource because of conflicting modifications.'')
   \<and> fst (callOpenProjectAPI test_config test_runtime (json_WorkPackage test_runtime)
          ''/work_packages/42'' ''GET'' None
          (fresh [http_fail 502 ''Bad Gateway'' ''<html>Bad Gateway</html>'']))
     = Inl (Error ''OpenProject API error (502): <html>Bad Gateway</html>'')
   \<and> fst (callOpenProjectAPI test_config test_runtime (json_WorkPackage test_runtime)
          ''/work_packages/42'' ''GET'' None
          (fresh [http_fail 404 ''Not Found'' []]))
     = Inl (Error ''OpenProject API error (404): Unknown error'')
   \<and> fst (callOpenProjectAPI test_config test_runtime (json_WorkPackage test_runtime)
          ''/work_packages/42'' ''GET'' None
          (fresh [Interrupted \<lparr>status = 502, statusText = ''Bad Gateway'',
                               responseText = ''<html>Bad Gateway</html>''\<rparr>
                    ''Premature close'']))
     = Inl (Error ''Premature close'')"
proof -
  let ?req = "api_options test_config test_runtime ''/work_packages/42'' ''GET'' None"
  have f: "fetch test_runtime (outside (fresh [http_fail c t b])) ?req
             = (Responded \<lparr>status = c, statusText = t, responseText = b\<rparr>, [])" for c t b
    by (simp add: test_runtime_def scripted_def fresh_def http_fail_def)
  have g: "fetch test_runtime (outside (fresh [Interrupted r m])) ?req
             = (Interrupted r m, [])" for r m
    by (simp add: test_runtime_def scripted_def fresh_def)
  have n: "\<not> ok \<lparr>status = 409, statusText = ''Conflict'', responseText = ''{error: conflict}''\<rparr>"
    "\<not> ok \<lparr>status = 502, statusText = ''Bad Gateway'',
             responseText = ''<html>Bad Gateway</html>''\<rparr>"
    "\<not> ok \<lparr>status = 404, statusText = ''Not Found'', responseText = []\<rparr>"
    by (simp_all add: ok_def)
  have d: "showNat 409 = ''409''" "showNat 502 = ''502''" "showNat 404 = ''404''"
    by (simp_all add: showNat.simps digit_def)
  have p: "JSON_parse_ErrorResponse test_runtime ''{error: conflict}''
             = Some \<lparr>errorIdentifier = ''urn:openproject-org:api:v3:errors:UpdateConflict'',
                     message = ''Could not update the resource because of conflicting modifications.''\<rparr>"
    "JSON_parse_ErrorResponse test_runtime ''<html>Bad Gateway</html>'' = None"
    "JSON_parse_ErrorResponse test_runtime [] = None"
    by (simp_all add: test_runtime_def)
  have "fst (callOpenProjectAPI test_config test_runtime (json_WorkPackage test_runtime)
          ''/work_packages/42'' ''GET'' None
          (fresh [http_fail 409 ''Conflict'' ''{error: conflict}'']))
     = Inl (Error ''OpenProject API error (409): Could not update the resource because of conflicting modifications.'')"
    using api_error_for_non_success_status[OF f disjI1[OF refl] n(1),
            of "json_WorkPackage test_runtime"]
    by (simp add: p d)
  moreover have "fst (callOpenProjectAPI test_config test_runtime (json_WorkPackage test_runtime)
          ''/work_packages/42'' ''GET'' None
          (fresh [http_fail 502 ''Bad Gateway'' ''<html>Bad Gateway</html>'']))
     = Inl (Error ''OpenProject API error (502): <html>Bad Gateway</html>'')"
    using api_error_for_non_success_status[OF f disjI1[OF refl] n(2),
            of "json_WorkPackage test_runtime"]
    by (simp add: p d)
  moreover have "fst (callOpenProjectAPI test_config test_runtime (json_WorkPackage test_runtime)
          ''/work_packages/42'' ''GET'' None
          (fresh [http_fail 404 ''Not Found'' []]))
     = Inl (Error ''OpenProject API error (404): Unknown error'')"
    using api_error_for_non_success_status[OF f disjI1[OF refl] n(3),
            of "json_WorkPackage test_runtime"]
    by (simp add: p d)
  moreover have "fst (callOpenProjectAPI test_config test_runtime (json_WorkPackage test_runtime)
          ''/work_packages/42'' ''GET'' None
          (fresh [Interrupted \<lparr>status = 502, statusText = ''Bad Gateway'',
                               responseText = ''<html>Bad Gateway</html>''\<rparr>
                    ''Premature close'']))
     = Inl (Error ''Premature close'')"
    using api_error_for_non_success_status[OF g disjI2[OF refl] n(2),
            of "json_WorkPackage test_runtime"]
    by simp
  ultimately show ?thesis by simp
qed

text \<open>
  C8. For every configured key, every request that a tool sends carries the
  Authorization header \<^verbatim>\<open>Basic\<close> followed by the base64 encoding of
  \<^verbatim>\<open>apikey:\<close> and the key: whatever the remote answers, the exchanges that a
  tool call adds to the log all carry it, and so does the request of the Go tool.
\<close>

theorem every_request_carries_basic_auth:
  "(\<exists>new. log (snd (server_tool cfg rt call w)) = log w @ new
       \<and> (\<forall>x \<in> set new. map_of (headers (fst x)) ''Authorization''
                             = Some (''Basic '' @ base64 (''apikey:'' @ apiKey cfg))))
   \<and> map_of (headers (go_request k workPackageID)) ''Authorization''
       = Some (''Basic '' @ base64 (''apikey:'' @ k))"
proof -
  have "continues cfg w (snd (server_tool cfg rt call w))"
    by (cases call)
       (simp_all add: get_work_package_detail_continues change_work_package_status_continues
          download_work_package_attachments_continues split_beta)
  then obtain new where n: "log (snd (server_tool cfg rt call w)) = log w @ new"
    and a: "list_all (authorized cfg) new"
    by (auto simp: continues_def)
  from a have "\<forall>x \<in> set new. map_of (headers (fst x)) ''Authorization''
                             = Some (''Basic '' @ base64 (''apikey:'' @ apiKey cfg))"
    by (simp add: list_all_iff authorized_def auth_headers_def)
  with n show ?thesis
    by (simp add: go_request_def basicAuth_def)
qed

text \<open>The three requests of a status change with the key \<^verbatim>\<open>s3cret\<close>.\<close>

theorem basic_auth_witness:
  "map (\<lambda>x. map_of (headers (fst x)) ''Authorization'')
     (log (snd (server_tool test_config test_runtime (ChangeWorkPackageStatus 42 ''closed'')
                  (fresh status_script))))
   = [Some ''Basic YXBpa2V5OnMzY3JldA=='', Some ''Basic YXBpa2V5OnMzY3JldA=='',
      Some ''Basic YXBpa2V5OnMzY3JldA=='']"
proof -
  let ?w = "snd (server_tool test_config test_runtime (ChangeWorkPackageStatus 42 ''closed'')
                   (fresh status_script))"
  have b: "''Basic '' @ base64 (''apikey:'' @ apiKey test_config) = ''Basic YXBpa2V5OnMzY3JldA==''"
    by (simp add: test_config_def b64_def b64chars_def)
  have n: "length (log ?w) = 3"
    by (simp add: model_defs model_defs2 double_defs split_beta)
  from every_request_carries_basic_auth[of test_config test_runtime
      "ChangeWorkPackageStatus 42 ''closed''" "fresh status_script"]
  obtain new where l: "log ?w = log (fresh status_script) @ new"
    and a: "\<forall>x \<in> set new. map_of (headers (fst x)) ''Authorization''
              = Some (''Basic '' @ base64 (''apikey:'' @ apiKey test_config))"
    by blast
  from l have l': "log ?w = new" by (simp add: fresh_def)
  with n obtain x y z where "new = [x, y, z]"
    by (auto simp: length_Suc_conv numeral_3_eq_3)
  with a l' show ?thesis
    unfolding b by simp
qed

section \<open>The projected record\<close>

lemma get_work_package_detail_projects_what_it_fetched:
  assumes "callOpenProjectAPI cfg rt (json_WorkPackage rt)
             (work_package_endpoint workPackageId) ''GET'' None w = (Inr data, w1)"
    and "callOpenProjectAPI cfg rt (json_Statuses rt) ''/statuses'' ''GET'' None w1
           = (Inr statuses, w2)"
  shows "get_work_package_detail cfg rt workPackageId w
           = (\<lparr>content_text = ''Work Package #'' @ showNumber workPackageId @ '' Details:''
                   @ newline @ JSON_stringify_indented rt (formatWorkPackage data statuses),
                isError = None\<rparr>, w2)"
  using assms by (simp add: get_work_package_detail_def)

text \<open>
  C9. For every work package document and catalog, the projected record is an object
  with the seventeen properties of the source, none of which is null or undefined.
  An absent assignee is projected to \<^verbatim>\<open>Unassigned\<close>, an absent description to
  \<^verbatim>\<open>No description\<close>, absent dates to \<^verbatim>\<open>No start date\<close> and
  \<^verbatim>\<open>No due date\<close>, an absent estimate to \<^verbatim>\<open>No estimate\<close>, an absent
  percentage to 0, and the property \<^verbatim>\<open>statuses\<close> lists the names of all entries of
  the catalog handed to the reducer, in order: in both tools, the catalog fetched by the
  same call.
\<close>

theorem formatWorkPackage_no_holes:
  "\<exists>fields.
     formatWorkPackage workPackage statuses = Obj fields
     \<and> map fst fields =
         [''id'', ''subject'', ''status'', ''type'', ''priority'', ''assignee'', ''project'',
          ''projectId'', ''description'', ''createdAt'', ''updatedAt'', ''startDate'',
          ''dueDate'', ''estimatedTime'', ''percentageDone'', ''lockVersion'', ''statuses'']
     \<and> (\<forall>v \<in> set (map snd fields). v \<noteq> Undefined \<and> v \<noteq> Null)
     \<and> (emb_assignee (embedded workPackage) = None
            \<longrightarrow> map_of fields ''assignee'' = Some (Str ''Unassigned''))
     \<and> (description workPackage = None
            \<longrightarrow> map_of fields ''description'' = Some (Str ''No description''))
     \<and> (startDate workPackage = None
            \<longrightarrow> map_of fields ''startDate'' = Some (Str ''No start date''))
     \<and> (dueDate workPackage = None
            \<longrightarrow> map_of fields ''dueDate'' = Some (Str ''No due date''))
     \<and> (estimatedTime workPackage = None
            \<longrightarrow> map_of fields ''estimatedTime'' = Some (Str ''No estimate''))
     \<and> (percentageDone workPackage = None
            \<longrightarrow> map_of fields ''percentageDone'' = Some (Num 0))
     \<and> map_of fields ''statuses'' = Some (Arr (map (\<lambda>s. Str (name s)) (elements statuses)))"
  unfolding formatWorkPackage_def
  by (auto simp: or_str_def or_num_def or_ident_def identValue_def
           split: option.splits ident.splits)

text \<open>The work package of the double, which has none of the optional members but a due date.\<close>

theorem formatWorkPackage_no_holes_witness:
  "\<exists>fields.
     formatWorkPackage (work_package_doc 5 (status_doc 1 ''New'' False)) catalog = Obj fields
     \<and> length fields = 17
     \<and> Null \<notin> set (map snd fields)
     \<and> Undefined \<notin> set (map snd fields)
     \<and> map_of fields ''assignee'' = Some (Str ''Unassigned'')
     \<and> map_of fields ''description'' = Some (Str ''No description'')
     \<and> map_of fields ''startDate'' = Some (Str ''No start date'')
     \<and> map_of fields ''estimatedTime'' = Some (Str ''No estimate'')
     \<and> map_of fields ''percentageDone'' = Some (Num 0)
     \<and> map_of fields ''statuses'' = Some (Arr [Str ''New'', Str ''In Progress'', Str ''Closed''])"
proof -
  let ?wp = "work_package_doc 5 (status_doc 1 ''New'' False)"
  have a: "emb_assignee (embedded ?wp) = None" "description ?wp = None" "startDate ?wp = None"
    "estimatedTime ?wp = None" "percentageDone ?wp = None"
    by (simp_all add: work_package_doc_def)
  have c: "map (\<lambda>s. Str (name s)) (elements catalog)
             = [Str ''New'', Str ''In Progress'', Str ''Closed'']"
    by (simp add: catalog_def status_doc_def)
  from formatWorkPackage_no_holes[of ?wp catalog] obtain fields where
    f: "formatWorkPackage ?wp catalog = Obj fields
     \<and> map fst fields =
         [''id'', ''subject'', ''status'', ''type'', ''priority'', ''assignee'', ''project'',
          ''projectId'', ''description'', ''createdAt'', ''updatedAt'', ''startDate'',
          ''dueDate'', ''estimatedTime'', ''percentageDone'', ''lockVersion'', ''statuses'']
     \<and> (\<forall>v \<in> set (map snd fields). v \<noteq> Undefined \<and> v \<noteq> Null)
     \<and> (emb_assignee (embedded ?wp) = None
            \<longrightarrow> map_of fields ''assignee'' = Some (Str ''Unassigned''))
     \<and> (description ?wp = None
            \<longrightarrow> map_of fields ''description'' = Some (Str ''No description''))
     \<and> (startDate ?wp = None
            \<longrightarrow> map_of fields ''startDate'' = Some (Str ''No start date''))
     \<and> (dueDate ?wp = None
            \<longrightarrow> map_of fields ''dueDate'' = Some (Str ''No due date''))
     \<and> (estimatedTime ?wp = None
            \<longrightarrow> map_of fields ''estimatedTime'' = Some (Str ''No estimate''))
     \<and> (percentageDone ?wp = None
            \<longrightarrow> map_of fields ''percentageDone'' = Some (Num 0))
     \<and> map_of fields ''statuses'' = Some (Arr (map (\<lambda>s. Str (name s)) (elements catalog)))"
    ..
  from f have k: "length (map fst fields) = 17" by simp
  from f have h: "\<forall>v \<in> set (map snd fields). v \<noteq> Undefined \<and> v \<noteq> Null" by simp
  have "formatWorkPackage ?wp catalog = Obj fields" using f by simp
  moreover have "length fields = 17" using k by simp
  moreover have "Null \<notin> set (map snd fields)" using h by blast
  moreover have "Undefined \<notin> set (map snd fields)" using h by blast
  moreover have "map_of fields ''assignee'' = Some (Str ''Unassigned'')" using f a by simp
  moreover have "map_of fields ''description'' = Some (Str ''No description'')" using f a by simp
  moreover have "map_of fields ''startDate'' = Some (Str ''No start date'')" using f a by simp
  moreover have "map_of fields ''estimatedTime'' = Some (Str ''No estimate'')" using f a by simp
  moreover have "map_of fields ''percentageDone'' = Some (Num 0)" using f a by simp
  moreover have "map_of fields ''statuses''
      = Some (Arr [Str ''New'', Str ''In Progress'', Str ''Closed''])" using f c by simp
  ultimately show ?thesis by blast
qed

text \<open>
  C10. A member that is present but falsy is projected like an absent one: a description
  with empty raw text, an empty start date, due date or estimate, and a percentage of 0
  give exactly the record that the work package gives without that member.
\<close>

theorem formatWorkPackage_conflates_falsy_with_absent:
  "formatWorkPackage (workPackage\<lparr>description := Some \<lparr>format = f, raw = [], html = h\<rparr>\<rparr>) statuses
     = formatWorkPackage (workPackage\<lparr>description := None\<rparr>) statuses
   \<and> formatWorkPackage (workPackage\<lparr>startDate := Some []\<rparr>) statuses
     = formatWorkPackage (workPackage\<lparr>startDate := None\<rparr>) statuses
   \<and> formatWorkPackage (workPackage\<lparr>dueDate := Some []\<rparr>) statuses
     = formatWorkPackage (workPackage\<lparr>dueDate := None\<rparr>) statuses
   \<and> formatWorkPackage (workPackage\<lparr>estimatedTime := Some []\<rparr>) statuses
     = formatWorkPackage (workPackage\<lparr>estimatedTime := None\<rparr>) statuses
   \<and> formatWorkPackage (workPackage\<lparr>percentageDone := Some 0\<rparr>) statuses
     = formatWorkPackage (workPackage\<lparr>percentageDone := None\<rparr>) statuses"
  by (simp add: formatWorkPackage_def or_str_def or_num_def)

text \<open>
  The work package of the double with an empty due date and a percentage of 0: both are
  projected to the placeholders of the absent members.
\<close>

theorem formatWorkPackage_conflates_witness:
  "formatWorkPackage
     ((work_package_doc 5 (status_doc 1 ''New'' False))\<lparr>dueDate := Some []\<rparr>) catalog
     = formatWorkPackage
         ((work_package_doc 5 (status_doc 1 ''New'' False))\<lparr>dueDate := None\<rparr>) catalog
   \<and> formatWorkPackage
       ((work_package_doc 5 (status_doc 1 ''New'' False))\<lparr>percentageDone := Some 0\<rparr>) catalog
     = formatWorkPackage
         ((work_package_doc 5 (status_doc 1 ''New'' False))\<lparr>percentageDone := None\<rparr>) catalog"
  using formatWorkPackage_conflates_falsy_with_absent
          [where workPackage = "work_package_doc 5 (status_doc 1 ''New'' False)"
             and statuses = catalog and f = "[]" and h = "[]"]
  by simp

end
